theory Spec2Isabelle
  imports Complex_Main "HOL-Library.AList"
begin

section \<open>JavaScript values and built-ins the sources rely on\<close>

text \<open>
  A JavaScript value as far as the adapters look into one: what \<^verbatim>\<open>JSON.parse\<close> returns,
  plus \<^verbatim>\<open>undefined\<close>, which a missing property reads as. Numbers are kept as integers;
  no modelled function computes with them.
  An object is the list of its properties in insertion order.
\<close>

datatype json =
    JUndefined
  | JNull
  | JBool bool
  | JNum int
  | JStr string
  | JArr "json list"
  | JObj "(string \<times> json) list"

text \<open>
  What a \<^verbatim>\<open>throw\<close> (or a rejected promise) carries: an \<^verbatim>\<open>Error\<close> object with its message; any
  other value that \<^verbatim>\<open>String(value)\<close> converts, kept as the string it gives; or a value that
  is not an \<^verbatim>\<open>Error\<close> and that \<^verbatim>\<open>String(value)\<close> cannot convert, kept as what \<^verbatim>\<open>String\<close> throws
  on it. For an object without \<^verbatim>\<open>toString\<close> and \<^verbatim>\<open>valueOf\<close>, such as \<^verbatim>\<open>Object.create(null)\<close>, that is
  a \<^verbatim>\<open>TypeError\<close>; an object whose \<^verbatim>\<open>toString\<close> throws makes \<^verbatim>\<open>String\<close> throw the same.
\<close>

datatype thrown = Error string | Thrown string | Inconvertible thrown

definition conversion_error :: thrown where
  "conversion_error = Error ''Cannot convert object to primitive value''"

text \<open>The value \<^verbatim>\<open>Object.create(null)\<close>, thrown.\<close>

definition bare_object :: thrown where
  "bare_object = Inconvertible conversion_error"

text \<open>\<^verbatim>\<open>xs.slice(start)\<close> with one argument: a negative start counts from the end, and
  both ends are clamped. \<^verbatim>\<open>-0\<close> is \<^verbatim>\<open>0\<close>, so \<^verbatim>\<open>xs.slice(-0)\<close> is the whole array.\<close>

definition js_slice :: "int \<Rightarrow> 'a list \<Rightarrow> 'a list" where
  "js_slice start xs =
     (let len = int (length xs);
          k = (if start < 0 then max (len + start) 0 else min start len)
      in drop (nat k) xs)"

section \<open>types.ts\<close>

datatype MessageRole = System | User | Assistant | Tool

text \<open>The string each member of the enum stands for at run time.\<close>

fun role_value :: "MessageRole \<Rightarrow> string" where
  "role_value System = ''system''"
| "role_value User = ''user''"
| "role_value Assistant = ''assistant''"
| "role_value Tool = ''tool''"

record ToolCall =
  name :: string
  arguments :: json
  callId :: string

text \<open>
  A message. \<^verbatim>\<open>timestamp\<close>, \<^verbatim>\<open>metadata\<close> and \<^verbatim>\<open>agentName\<close> are written but never read
  by the code modelled here and are left out. The content is a string by its type; at run
  time the field can also hold \<^verbatim>\<open>undefined\<close> (the agent stores what \<^verbatim>\<open>JSON.stringify\<close> returns
  for a tool result, and that is \<^verbatim>\<open>undefined\<close> for some values): \<open>None\<close>.
\<close>

record Message =
  role :: MessageRole
  content :: "string option"
  toolCalls :: "ToolCall list option"
  toolCallId :: "string option"

text \<open>\<^verbatim>\<open>!message.content\<close>: the content is \<^verbatim>\<open>undefined\<close> or the empty string.\<close>

definition no_content :: "Message \<Rightarrow> bool" where
  "no_content m = (content m = None \<or> content m = Some [])"

text \<open>A tool result. The result of a handler can be any value: its type is a parameter.
  \<open>executionTime\<close> is in whole milliseconds.\<close>

record 'v ToolResult =
  result_callId :: string
  result :: "'v option"
  error :: "string option"
  executionTime :: nat

section \<open>Memory: SimpleDictMemory (simple-agent.ts) and DictMemory (memory.ts)\<close>

record SimpleDictMemory =
  messages :: "Message list"
  maxMessages :: nat

text \<open>The constructor: \<^verbatim>\<open>new SimpleDictMemory(maxMessages)\<close> starts empty.\<close>

definition new_SimpleDictMemory :: "nat \<Rightarrow> SimpleDictMemory" where
  "new_SimpleDictMemory n = \<lparr>messages = [], maxMessages = n\<rparr>"

text \<open>\<^verbatim>\<open>push\<close>, then \<^verbatim>\<open>slice(-maxMessages)\<close> when the array has grown past the capacity.\<close>

definition SimpleDictMemory_addMessage :: "SimpleDictMemory \<Rightarrow> Message \<Rightarrow> SimpleDictMemory" where
  "SimpleDictMemory_addMessage mem message =
     (let pushed = messages mem @ [message]
      in if length pushed > maxMessages mem
         then mem\<lparr>messages := js_slice (- int (maxMessages mem)) pushed\<rparr>
         else mem\<lparr>messages := pushed\<rparr>)"

definition SimpleDictMemory_getMessages :: "SimpleDictMemory \<Rightarrow> Message list" where
  "SimpleDictMemory_getMessages mem = messages mem"

definition SimpleDictMemory_clear :: "SimpleDictMemory \<Rightarrow> SimpleDictMemory" where
  "SimpleDictMemory_clear mem = mem\<lparr>messages := []\<rparr>"

record DictMemory =
  sessions :: "string \<rightharpoonup> Message list"
  session_maxMessages :: nat

definition new_DictMemory :: "nat \<Rightarrow> DictMemory" where
  "new_DictMemory n = \<lparr>sessions = Map.empty, session_maxMessages = n\<rparr>"

text \<open>A missing session is created empty; the message is pushed onto the stored array; past
  the capacity the session is replaced by \<^verbatim>\<open>slice(-maxMessages)\<close> of it.\<close>

definition DictMemory_addMessage :: "DictMemory \<Rightarrow> string \<Rightarrow> Message \<Rightarrow> DictMemory" where
  "DictMemory_addMessage mem sessionId message =
     (let stored = (case sessions mem sessionId of None \<Rightarrow> [] | Some ms \<Rightarrow> ms);
          pushed = stored @ [message]
      in if length pushed > session_maxMessages mem
         then mem\<lparr>sessions := (sessions mem)(sessionId \<mapsto> js_slice (- int (session_maxMessages mem)) pushed)\<rparr>
         else mem\<lparr>sessions := (sessions mem)(sessionId \<mapsto> pushed)\<rparr>)"

definition DictMemory_getMessages :: "DictMemory \<Rightarrow> string \<Rightarrow> int option \<Rightarrow> Message list" where
  "DictMemory_getMessages mem sessionId limit =
     (let stored = (case sessions mem sessionId of None \<Rightarrow> [] | Some ms \<Rightarrow> ms)
      in case limit of Some l \<Rightarrow> js_slice (- l) stored | None \<Rightarrow> stored)"

text \<open>What a session of a \<open>DictMemory\<close> holds: \<^verbatim>\<open>getMessages(sessionId)\<close> with no limit.\<close>

definition stored :: "DictMemory \<Rightarrow> string \<Rightarrow> Message list" where
  "stored mem sid = DictMemory_getMessages mem sid None"

definition DictMemory_clearSession :: "DictMemory \<Rightarrow> string \<Rightarrow> DictMemory" where
  "DictMemory_clearSession mem sessionId = mem\<lparr>sessions := (sessions mem)(sessionId := None)\<rparr>"

definition DictMemory_getSessionCount :: "DictMemory \<Rightarrow> string \<Rightarrow> nat" where
  "DictMemory_getSessionCount mem sessionId =
     (case sessions mem sessionId of None \<Rightarrow> 0 | Some ms \<Rightarrow> length ms)"

text \<open>\<^verbatim>\<open>createMemoryBackend\<close>: the constructor of \<^verbatim>\<open>SQLiteMemory\<close> throws.\<close>

definition createMemoryBackend :: "string \<Rightarrow> thrown + DictMemory" where
  "createMemoryBackend backendType =
     (if backendType = ''memory'' \<or> backendType = ''dict'' then Inr (new_DictMemory 1000)
      else if backendType = ''sqlite''
      then Inl (Error ''SQLite memory backend not yet implemented for TypeScript'')
      else Inl (Error (''Unsupported backend type: '' @ backendType)))"

text \<open>A run of \<^verbatim>\<open>addMessage\<close> calls, oldest first.\<close>

definition SimpleDictMemory_addAll :: "SimpleDictMemory \<Rightarrow> Message list \<Rightarrow> SimpleDictMemory" where
  "SimpleDictMemory_addAll mem ms = foldl SimpleDictMemory_addMessage mem ms"

definition DictMemory_addAll :: "DictMemory \<Rightarrow> string \<Rightarrow> Message list \<Rightarrow> DictMemory" where
  "DictMemory_addAll mem sessionId ms = foldl (\<lambda>m. DictMemory_addMessage m sessionId) mem ms"

section \<open>tools.ts\<close>

text \<open>
  What a call of a tool's \<^verbatim>\<open>function\<close> does, as far as \<^verbatim>\<open>executeTool\<close> can tell. Times are
  milliseconds after the call.

  \<^item> \<open>Returns d v\<close>: the call runs for \<open>d\<close> ms and returns \<open>v\<close>, or a promise that is fulfilled
    with \<open>v\<close> before the turn of the event loop in which the call ran is over (an \<^verbatim>\<open>async\<close>
    function that waits for nothing outside itself). The call keeps the thread: however
    large \<open>d\<close> is, no timer callback runs before the promise is fulfilled.
  \<^item> \<open>Throws d e\<close>: the same for a call that throws \<open>e\<close>, or returns a promise rejected
    with \<open>e\<close> in that turn.
  \<^item> \<open>ResolvesAt t first v\<close>: the call returns a pending promise, which an event of a later
    turn fulfils with \<open>v\<close>, \<open>t\<close> ms after the call. When the timer is not yet due at \<open>t\<close> its
    callback cannot have run. When it is due, \<open>first\<close> says whether the event loop still
    delivers the event before the timer's callback: a timer that is due waits until the
    loop comes to its timers, and a loop that was kept busy may deliver other events first.
  \<^item> \<open>RejectsAt t first e\<close>: the same for a promise that is rejected with \<open>e\<close>.
  \<^item> \<open>Pending\<close>: a promise that never settles.
\<close>

datatype 'v handler_outcome =
    Returns real 'v
  | Throws real thrown
  | ResolvesAt real bool 'v
  | RejectsAt real bool thrown
  | Pending

text \<open>A tool. The field \<^verbatim>\<open>function\<close> is named \<open>handler\<close> here. \<open>timeout\<close> is a number of seconds;
  the values \<^verbatim>\<open>NaN\<close> and \<^verbatim>\<open>Infinity\<close> of the type \<^verbatim>\<open>number\<close> behave like any other timeout
  outside the range of the timer (see \<open>timer_ms\<close>).\<close>

record 'v Tool =
  tool_name :: string
  description :: string
  handler :: "json \<Rightarrow> 'v handler_outcome"
  parameters :: json
  timeout :: real

text \<open>The registry is a \<^verbatim>\<open>Map\<close> from names to tools: a list of entries in insertion order,
  where setting a key that exists replaces its value in place.\<close>

type_synonym 'v ToolRegistry = "(string \<times> 'v Tool) list"

definition registerTool :: "'v ToolRegistry \<Rightarrow> 'v Tool \<Rightarrow> 'v ToolRegistry" where
  "registerTool reg tool = AList.update (tool_name tool) tool reg"

definition getTool :: "'v ToolRegistry \<Rightarrow> string \<Rightarrow> 'v Tool option" where
  "getTool reg n = map_of reg n"

definition listTools :: "'v ToolRegistry \<Rightarrow> 'v Tool list" where
  "listTools reg = map snd reg"

definition getOpenAITools :: "'v ToolRegistry \<Rightarrow> json list" where
  "getOpenAITools reg =
     map (\<lambda>tool. JObj [(''type'', JStr ''function''),
                        (''function'', JObj [(''name'', JStr (tool_name tool)),
                                             (''description'', JStr (description tool)),
                                             (''parameters'', parameters tool)])])
       (map snd reg)"

definition getAnthropicTools :: "'v ToolRegistry \<Rightarrow> json list" where
  "getAnthropicTools reg =
     map (\<lambda>tool. JObj [(''name'', JStr (tool_name tool)),
                        (''description'', JStr (description tool)),
                        (''input_schema'', parameters tool)])
       (map snd reg)"

text \<open>
  The delay of the timer of \<^verbatim>\<open>setTimeout(..., tool.timeout * 1000)\<close>, as Node takes it: a
  delay that is not within 1 .. 2147483647 becomes 1, and the fraction of a millisecond is
  dropped. The timer is armed before the handler is called; its callback never runs before
  the delay has passed, and never within the turn that armed it.
\<close>

definition timer_ms :: "'v Tool \<Rightarrow> real" where
  "timer_ms tool =
     (let d = timeout tool * 1000
      in if 1 \<le> d \<and> d \<le> 2147483647 then of_int \<lfloor>d\<rfloor> else 1)"

definition timeout_error :: thrown where
  "timeout_error = Error ''Tool execution timeout''"

text \<open>
  \<^verbatim>\<open>await Promise.race([executionPromise, timeoutPromise])\<close>, with the call of the handler that
  precedes it: the value awaited or the error thrown, and the time it took. The promise that
  settles first wins. A handler that has settled when its call is over wins; so does one
  that settles before the timer is due, or that the event loop settles first.
\<close>

fun race :: "'v handler_outcome \<Rightarrow> real \<Rightarrow> (thrown + 'v) \<times> real" where
  "race (Returns d v) T = (Inr v, d)"
| "race (Throws d e) T = (Inl e, d)"
| "race (ResolvesAt t first v) T = (if t < T \<or> first then (Inr v, t) else (Inl timeout_error, T))"
| "race (RejectsAt t first e) T = (if t < T \<or> first then (Inl e, t) else (Inl timeout_error, T))"
| "race Pending T = (Inl timeout_error, T)"

text \<open>The promise of the handler is still pending when the event loop runs the callback of a
  timer that is due after \<open>T\<close> ms.\<close>

fun pending_at_timer :: "'v handler_outcome \<Rightarrow> real \<Rightarrow> bool" where
  "pending_at_timer (Returns d v) T = False"
| "pending_at_timer (Throws d e) T = False"
| "pending_at_timer (ResolvesAt t first v) T = (T \<le> t \<and> \<not> first)"
| "pending_at_timer (RejectsAt t first e) T = (T \<le> t \<and> \<not> first)"
| "pending_at_timer Pending T = True"

text \<open>\<^verbatim>\<open>error instanceof Error ? error.message : String(error)\<close>: a string, or what \<^verbatim>\<open>String\<close>
  throws.\<close>

fun error_message :: "thrown \<Rightarrow> thrown + string" where
  "error_message (Error msg) = Inr msg"
| "error_message (Thrown s) = Inr s"
| "error_message (Inconvertible e) = Inl e"

text \<open>
  \<^verbatim>\<open>executeTool\<close>: the result it returns (\<open>Inr\<close>), or the error with which its promise is
  rejected (\<open>Inl\<close>), which happens when the \<^verbatim>\<open>catch\<close> block itself throws. \<open>executionTime\<close> is
  the time the model's clock has advanced, in whole milliseconds.
\<close>

definition executeTool :: "'v ToolRegistry \<Rightarrow> ToolCall \<Rightarrow> thrown + 'v ToolResult" where
  "executeTool reg toolCall =
     (case getTool reg (name toolCall) of
        None \<Rightarrow>
          Inr \<lparr>result_callId = callId toolCall, result = None,
               error = Some (''Tool '' @ [CHR 0x27] @ name toolCall @ [CHR 0x27] @ '' not found''),
               executionTime = 0\<rparr>
      | Some tool \<Rightarrow>
          (case race (handler tool (arguments toolCall)) (timer_ms tool) of
             (Inr v, t) \<Rightarrow>
               Inr \<lparr>result_callId = callId toolCall, result = Some v, error = None,
                    executionTime = nat \<lfloor>t\<rfloor>\<rparr>
           | (Inl e, t) \<Rightarrow>
               (case error_message e of
                  Inl e' \<Rightarrow> Inl e'
                | Inr msg \<Rightarrow>
                    Inr \<lparr>result_callId = callId toolCall, result = None, error = Some msg,
                         executionTime = nat \<lfloor>t\<rfloor>\<rparr>)))"

text \<open>\<^verbatim>\<open>createTool\<close>: the defaults of the helper (\<^verbatim>\<open>config.timeout || 30.0\<close>: a timeout of 0
  becomes 30).\<close>

definition createTool ::
  "string \<Rightarrow> string \<Rightarrow> (json \<Rightarrow> 'v handler_outcome) \<Rightarrow> json option \<Rightarrow> real option \<Rightarrow> 'v Tool" where
  "createTool n d f ps t =
     \<lparr>tool_name = n, description = d, handler = f,
      parameters = (case ps of Some p \<Rightarrow> p
                    | None \<Rightarrow> JObj [(''type'', JStr ''object''), (''properties'', JObj []),
                                      (''required'', JArr [])]),
      timeout = (case t of Some k \<Rightarrow> if k = 0 then 30 else k | None \<Rightarrow> 30)\<rparr>"

section \<open>More built-ins: strings and property access\<close>

text \<open>\<^verbatim>\<open>s.split('\n')\<close>: the pieces between line feeds; never an empty list.\<close>

fun split_lines :: "string \<Rightarrow> string list" where
  "split_lines [] = [[]]"
| "split_lines (c # cs) =
     (if c = CHR 0x0A then [] # split_lines cs
      else (case split_lines cs of [] \<Rightarrow> [[c]] | l # ls \<Rightarrow> (c # l) # ls))"

text \<open>
  A string is a list of characters with codes below 256. \<^verbatim>\<open>s.trim()\<close> strips white space and
  line terminators from both ends; these seven are the ones with a code below 256 (the
  others, such as U+FEFF and U+2028, cannot occur in such a string).
\<close>

definition is_space :: "char \<Rightarrow> bool" where
  "is_space c =
     (c \<in> set [CHR 0x20, CHR 0x09, CHR 0x0A, CHR 0x0B, CHR 0x0C, CHR 0x0D, CHR 0xA0])"

definition js_trim :: "string \<Rightarrow> string" where
  "js_trim s = rev (dropWhile is_space (rev (dropWhile is_space s)))"

definition startsWith :: "string \<Rightarrow> string \<Rightarrow> bool" where
  "startsWith s p = (take (length p) s = p)"

text \<open>Decimal digits of a number, as a template literal prints \<^verbatim>\<open>response.status\<close>.\<close>

fun decimal :: "nat \<Rightarrow> string" where
  "decimal n =
     (if n < 10 then [char_of (48 + n)] else decimal (n div 10) @ [char_of (48 + n mod 10)])"

text \<open>Truthiness, as \<^verbatim>\<open>if (x)\<close>, \<^verbatim>\<open>x || y\<close> and \<^verbatim>\<open>x ? y : z\<close> test it.\<close>

fun truthy :: "json \<Rightarrow> bool" where
  "truthy JUndefined = False"
| "truthy JNull = False"
| "truthy (JBool b) = b"
| "truthy (JNum n) = (n \<noteq> 0)"
| "truthy (JStr s) = (s \<noteq> [])"
| "truthy (JArr xs) = True"
| "truthy (JObj kvs) = True"

definition js_or :: "json \<Rightarrow> json \<Rightarrow> json" where
  "js_or a b = (if truthy a then a else b)"

definition nullish :: "json \<Rightarrow> bool" where
  "nullish j = (j = JUndefined \<or> j = JNull)"

text \<open>
  \<^verbatim>\<open>base.key\<close> on a base that is neither \<^verbatim>\<open>null\<close> nor \<^verbatim>\<open>undefined\<close>, for the property names
  the sources read (none of them is inherited from a prototype, so only an object can have
  one). An object parsed from JSON has each key once.
\<close>

fun js_get :: "json \<Rightarrow> string \<Rightarrow> json" where
  "js_get (JObj kvs) k = (case map_of kvs k of Some v \<Rightarrow> v | None \<Rightarrow> JUndefined)"
| "js_get j k = JUndefined"

text \<open>\<^verbatim>\<open>base[0]\<close> on such a base: the first element of an array, the first character of a
  string, the property \<^verbatim>\<open>"0"\<close> of an object.\<close>

fun js_first :: "json \<Rightarrow> json" where
  "js_first (JArr (x # xs)) = x"
| "js_first (JStr (c # cs)) = JStr [c]"
| "js_first (JObj kvs) = js_get (JObj kvs) ''0''"
| "js_first j = JUndefined"

text \<open>Optional chaining: \<^verbatim>\<open>base?.key\<close> and \<^verbatim>\<open>base?.[0]\<close>.\<close>

definition opt_get :: "json \<Rightarrow> string \<Rightarrow> json" where
  "opt_get j k = (if nullish j then JUndefined else js_get j k)"

definition opt_first :: "json \<Rightarrow> json" where
  "opt_first j = (if nullish j then JUndefined else js_first j)"

text \<open>Plain access throws a \<^verbatim>\<open>TypeError\<close> on \<^verbatim>\<open>null\<close> and \<^verbatim>\<open>undefined\<close>.\<close>

definition type_error :: thrown where
  "type_error = Error ''TypeError''"

section \<open>llm/base.ts\<close>

text \<open>
  The two interfaces are filled from untyped data by the adapters and read as typed data by
  the agent, so the types of the content and of the tool calls are parameters: \<open>json\<close> where
  an adapter builds the value, \<open>string\<close> and a list of typed calls where the agent reads it.
\<close>

record Usage =
  promptTokens :: json
  completionTokens :: json
  totalTokens :: json

record ('c, 't) LLMResponse =
  response_content :: 'c
  usage :: "Usage option"
  response_toolCalls :: 't

record ('c, 't) StreamChunk =
  chunk_content :: "'c option"
  delta :: "string option"
  finished :: "bool option"
  chunk_toolCalls :: "'t option"

text \<open>The fields of \<^verbatim>\<open>BaseLLM\<close> after construction. The temperature is a number that is
  only copied into the request.\<close>

record BaseLLM =
  model :: string
  apiKey :: string
  baseURL :: "string option"
  temperature :: json
  maxTokens :: "nat option"

definition validateMessages :: "Message list \<Rightarrow> thrown + unit" where
  "validateMessages msgs =
     (if msgs = [] then Inl (Error ''Messages cannot be empty'')
      else if list_ex (\<lambda>message. role_value (role message) = [] \<or> no_content message) msgs
      then Inl (Error ''Each message must have role and content'')
      else Inr ())"

text \<open>The network: \<^verbatim>\<open>fetch\<close> is a parameter of the adapters. A response carries its status,
  its body as text and, for a streamed body, the pieces the reader delivers (already
  decoded), or no reader at all.\<close>

record HttpRequest =
  url :: string
  headers :: "(string \<times> string) list"
  body :: json

record HttpResponse =
  ok :: bool
  status :: nat
  body_text :: string
  body_reader :: "string list option"

type_synonym fetch_fn = "HttpRequest \<Rightarrow> thrown + HttpResponse"
type_synonym parse_fn = "string \<Rightarrow> thrown + json"

text \<open>What an adapter method gives back: its result or the error it throws, and the requests
  it has sent, in order. A stream is the chunks it yields when read to its end, and the
  error that ends it, if one does.\<close>

type_synonym chat_result = "(thrown + (json, json) LLMResponse) \<times> HttpRequest list"
type_synonym stream_result = "((json, json) StreamChunk list \<times> thrown option) \<times> HttpRequest list"

text \<open>\<^verbatim>\<open>{role: msg.role, content: msg.content}\<close> as \<^verbatim>\<open>JSON.stringify\<close> writes it: a property
  that is \<^verbatim>\<open>undefined\<close> is left out.\<close>

definition content_field :: "Message \<Rightarrow> (string \<times> json) list" where
  "content_field msg = (case content msg of None \<Rightarrow> [] | Some c \<Rightarrow> [(''content'', JStr c)])"

definition message_json :: "Message \<Rightarrow> json" where
  "message_json msg = JObj ((''role'', JStr (role_value (role msg))) # content_field msg)"

definition or_default :: "string option \<Rightarrow> string \<Rightarrow> string" where
  "or_default s d = (case s of None \<Rightarrow> d | Some u \<Rightarrow> if u = [] then d else u)"

definition max_tokens_field :: "BaseLLM \<Rightarrow> (string \<times> json) list" where
  "max_tokens_field llm =
     (case maxTokens llm of None \<Rightarrow> []
      | Some n \<Rightarrow> if n = 0 then [] else [(''max_tokens'', JNum (int n))])"

definition content_chunk :: "json \<Rightarrow> (json, json) StreamChunk" where
  "content_chunk c = \<lparr>chunk_content = Some c, delta = None, finished = None, chunk_toolCalls = None\<rparr>"

definition toolCalls_chunk :: "json \<Rightarrow> (json, json) StreamChunk" where
  "toolCalls_chunk t = \<lparr>chunk_content = None, delta = None, finished = None, chunk_toolCalls = Some t\<rparr>"

definition finished_chunk :: "(json, json) StreamChunk" where
  "finished_chunk = \<lparr>chunk_content = None, delta = None, finished = Some True, chunk_toolCalls = None\<rparr>"

text \<open>
  The reading loop both adapters share: each piece is appended to the buffer, the buffer is
  split at line feeds, the last part is kept as the new buffer (\<^verbatim>\<open>lines.pop() || ''\<close>) and
  the lines before it are processed in order. What is left in the buffer when the reader is
  done is dropped.
\<close>

fun read_loop :: "(string \<Rightarrow> 'a list) \<Rightarrow> string \<Rightarrow> string list \<Rightarrow> 'a list" where
  "read_loop process buffer [] = []"
| "read_loop process buffer (piece # pieces) =
     (let lines = split_lines (buffer @ piece)
      in concat (map process (butlast lines)) @ read_loop process (last lines) pieces)"

subsection \<open>OpenAILLM\<close>

definition openai_url :: "BaseLLM \<Rightarrow> string \<Rightarrow> string" where
  "openai_url llm endpoint = or_default (baseURL llm) ''https://api.openai.com/v1'' @ ''/'' @ endpoint"

definition openai_request :: "BaseLLM \<Rightarrow> string \<Rightarrow> json \<Rightarrow> HttpRequest" where
  "openai_request llm endpoint data =
     \<lparr>url = openai_url llm endpoint,
      headers = [(''Content-Type'', ''application/json''),
                 (''Authorization'', ''Bearer '' @ apiKey llm)],
      body = data\<rparr>"

definition openai_data :: "BaseLLM \<Rightarrow> Message list \<Rightarrow> json list option \<Rightarrow> bool \<Rightarrow> json" where
  "openai_data llm msgs tools streaming =
     JObj ([(''model'', JStr (model llm)),
            (''messages'', JArr (map message_json msgs)),
            (''temperature'', temperature llm)]
           @ (if streaming then [(''stream'', JBool True)] else [])
           @ max_tokens_field llm
           @ (case tools of None \<Rightarrow> []
              | Some ts \<Rightarrow> if ts = [] then []
                          else [(''tools'', JArr ts), (''tool_choice'', JStr ''auto'')]))"

definition openai_api_error :: "HttpResponse \<Rightarrow> thrown" where
  "openai_api_error resp =
     Error (''OpenAI API error: '' @ decimal (status resp) @ '' - '' @ body_text resp)"

text \<open>\<^verbatim>\<open>makeRequest\<close>: the parsed body, or the error thrown; the request is sent either way.\<close>

definition OpenAILLM_makeRequest ::
  "parse_fn \<Rightarrow> fetch_fn \<Rightarrow> BaseLLM \<Rightarrow> string \<Rightarrow> json \<Rightarrow> thrown + json" where
  "OpenAILLM_makeRequest parse fetch llm endpoint data =
     (case fetch (openai_request llm endpoint data) of
        Inl e \<Rightarrow> Inl e
      | Inr resp \<Rightarrow> if \<not> ok resp then Inl (openai_api_error resp) else parse (body_text resp))"

text \<open>The mapping of a completed response. \<^verbatim>\<open>response.choices[0]\<close> is a plain access: it
  throws when the response or its \<^verbatim>\<open>choices\<close> is \<^verbatim>\<open>null\<close> or missing.\<close>

definition openai_response :: "json \<Rightarrow> thrown + (json, json) LLMResponse" where
  "openai_response response =
     (if nullish response \<or> nullish (js_get response ''choices'') then Inl type_error
      else
        let message = opt_get (js_first (js_get response ''choices'')) ''message'';
            u = js_get response ''usage''
        in Inr \<lparr>response_content = js_or (opt_get message ''content'') (JStr []),
                usage = (if truthy u
                         then Some \<lparr>promptTokens = js_get u ''prompt_tokens'',
                                    completionTokens = js_get u ''completion_tokens'',
                                    totalTokens = js_get u ''total_tokens''\<rparr>
                         else None),
                response_toolCalls = opt_get message ''tool_calls''\<rparr>)"

definition OpenAILLM_chat ::
  "parse_fn \<Rightarrow> fetch_fn \<Rightarrow> BaseLLM \<Rightarrow> Message list \<Rightarrow> json list option \<Rightarrow> chat_result" where
  "OpenAILLM_chat parse fetch llm msgs tools =
     (case validateMessages msgs of
        Inl e \<Rightarrow> (Inl e, [])
      | Inr u \<Rightarrow>
          let data = openai_data llm msgs tools False
          in (case OpenAILLM_makeRequest parse fetch llm ''chat/completions'' data of
                Inl e \<Rightarrow> (Inl e, [openai_request llm ''chat/completions'' data])
              | Inr response \<Rightarrow>
                  (openai_response response, [openai_request llm ''chat/completions'' data])))"

text \<open>One complete line of the streamed body. A line that does not parse, or whose payload
  is \<^verbatim>\<open>null\<close> (so that \<^verbatim>\<open>data.choices\<close> throws), is skipped by the \<^verbatim>\<open>catch\<close>.\<close>

definition openai_line :: "parse_fn \<Rightarrow> string \<Rightarrow> (json, json) StreamChunk list" where
  "openai_line parse line =
     (let trimmed = js_trim line
      in if trimmed = [] \<or> trimmed = ''data: [DONE]'' then []
         else if startsWith trimmed ''data: '' then
           (case parse (drop 6 trimmed) of
              Inl e \<Rightarrow> []
            | Inr data \<Rightarrow>
                if nullish data then []
                else
                  let choice = opt_first (js_get data ''choices'');
                      d = opt_get choice ''delta''
                  in (if truthy (opt_get d ''content'') then [content_chunk (opt_get d ''content'')] else [])
                   @ (if truthy (opt_get d ''tool_calls'') then [toolCalls_chunk (opt_get d ''tool_calls'')] else [])
                   @ (if truthy (opt_get choice ''finish_reason'') then [finished_chunk] else []))
         else [])"

definition OpenAILLM_stream ::
  "parse_fn \<Rightarrow> fetch_fn \<Rightarrow> BaseLLM \<Rightarrow> Message list \<Rightarrow> json list option \<Rightarrow> stream_result" where
  "OpenAILLM_stream parse fetch llm msgs tools =
     (case validateMessages msgs of
        Inl e \<Rightarrow> (([], Some e), [])
      | Inr u \<Rightarrow>
          let req = openai_request llm ''chat/completions'' (openai_data llm msgs tools True)
          in (case fetch req of
                Inl e \<Rightarrow> (([], Some e), [req])
              | Inr resp \<Rightarrow>
                  if \<not> ok resp then (([], Some (openai_api_error resp)), [req])
                  else (case body_reader resp of
                          None \<Rightarrow> (([], Some (Error ''Failed to get response reader'')), [req])
                        | Some pieces \<Rightarrow> ((read_loop (openai_line parse) [] pieces, None), [req]))))"

subsection \<open>AnthropicLLM\<close>

text \<open>The conversion loop: the last system message becomes the \<^verbatim>\<open>system\<close> field, every other
  message is sent as an assistant or a user message.\<close>

definition anthropic_system :: "Message list \<Rightarrow> string option" where
  "anthropic_system msgs =
     foldl (\<lambda>acc msg. if role_value (role msg) = ''system'' then content msg else acc) (Some []) msgs"

definition anthropic_messages :: "Message list \<Rightarrow> json list" where
  "anthropic_messages msgs =
     map (\<lambda>msg. JObj ((''role'', JStr (if role_value (role msg) = ''assistant''
                                        then ''assistant'' else ''user''))
                      # content_field msg))
       (filter (\<lambda>msg. role_value (role msg) \<noteq> ''system'') msgs)"

definition anthropic_data :: "BaseLLM \<Rightarrow> Message list \<Rightarrow> json list option \<Rightarrow> bool \<Rightarrow> json" where
  "anthropic_data llm msgs tools streaming =
     JObj ([(''model'', JStr (model llm)),
            (''messages'', JArr (anthropic_messages msgs)),
            (''max_tokens'', (case maxTokens llm of None \<Rightarrow> JNum 4096
                              | Some n \<Rightarrow> if n = 0 then JNum 4096 else JNum (int n))),
            (''temperature'', temperature llm)]
           @ (if streaming then [(''stream'', JBool True)] else [])
           @ (case anthropic_system msgs of
                None \<Rightarrow> []
              | Some sys \<Rightarrow> if sys = [] then [] else [(''system'', JStr sys)])
           @ (case tools of None \<Rightarrow> []
              | Some ts \<Rightarrow> if ts = [] then [] else [(''tools'', JArr ts)]))"

definition anthropic_request :: "BaseLLM \<Rightarrow> json \<Rightarrow> HttpRequest" where
  "anthropic_request llm data =
     \<lparr>url = or_default (baseURL llm) ''https://api.anthropic.com'' @ ''/v1/messages'',
      headers = [(''Content-Type'', ''application/json''),
                 (''x-api-key'', apiKey llm),
                 (''anthropic-version'', ''2023-06-01'')],
      body = data\<rparr>"

definition anthropic_api_error :: "HttpResponse \<Rightarrow> thrown" where
  "anthropic_api_error resp =
     Error (''Anthropic API error: '' @ decimal (status resp) @ '' - '' @ body_text resp)"

definition AnthropicLLM_makeRequest ::
  "parse_fn \<Rightarrow> fetch_fn \<Rightarrow> BaseLLM \<Rightarrow> json \<Rightarrow> thrown + json" where
  "AnthropicLLM_makeRequest parse fetch llm data =
     (case fetch (anthropic_request llm data) of
        Inl e \<Rightarrow> Inl e
      | Inr resp \<Rightarrow> if \<not> ok resp then Inl (anthropic_api_error resp) else parse (body_text resp))"

text \<open>
  The mapping of a completed response. The operator \<^verbatim>\<open>+\<close> that adds the two token counts
  is a parameter. \<^verbatim>\<open>response.content?.filter(...)\<close> throws when the content is neither missing
  nor an array, or when an element is \<^verbatim>\<open>null\<close>.
\<close>

definition anthropic_tool_use :: "json \<Rightarrow> thrown + json" where
  "anthropic_tool_use c =
     (if nullish c then Inr JUndefined
      else case c of
             JArr xs \<Rightarrow> if list_ex nullish xs then Inl type_error
                        else Inr (JArr (filter (\<lambda>x. js_get x ''type'' = JStr ''tool_use'') xs))
           | _ \<Rightarrow> Inl type_error)"

definition anthropic_response ::
  "(json \<Rightarrow> json \<Rightarrow> json) \<Rightarrow> json \<Rightarrow> thrown + (json, json) LLMResponse" where
  "anthropic_response add response =
     (if nullish response then Inl type_error
      else
        let c = js_get response ''content'';
            u = js_get response ''usage''
        in case anthropic_tool_use c of
             Inl e \<Rightarrow> Inl e
           | Inr calls \<Rightarrow>
               Inr \<lparr>response_content = js_or (opt_get (opt_first c) ''text'') (JStr []),
                    usage = (if truthy u
                             then Some \<lparr>promptTokens = js_get u ''input_tokens'',
                                        completionTokens = js_get u ''output_tokens'',
                                        totalTokens = add (js_get u ''input_tokens'')
                                                           (js_get u ''output_tokens'')\<rparr>
                             else None),
                    response_toolCalls = calls\<rparr>)"

definition AnthropicLLM_chat ::
  "parse_fn \<Rightarrow> fetch_fn \<Rightarrow> (json \<Rightarrow> json \<Rightarrow> json) \<Rightarrow> BaseLLM \<Rightarrow> Message list \<Rightarrow>
   json list option \<Rightarrow> chat_result" where
  "AnthropicLLM_chat parse fetch add llm msgs tools =
     (case validateMessages msgs of
        Inl e \<Rightarrow> (Inl e, [])
      | Inr u \<Rightarrow>
          let data = anthropic_data llm msgs tools False
          in (case AnthropicLLM_makeRequest parse fetch llm data of
                Inl e \<Rightarrow> (Inl e, [anthropic_request llm data])
              | Inr response \<Rightarrow>
                  (anthropic_response add response, [anthropic_request llm data])))"

definition anthropic_line :: "parse_fn \<Rightarrow> string \<Rightarrow> (json, json) StreamChunk list" where
  "anthropic_line parse line =
     (let trimmed = js_trim line
      in if trimmed = [] \<or> \<not> startsWith trimmed ''data: '' then []
         else (case parse (drop 6 trimmed) of
                 Inl e \<Rightarrow> []
               | Inr data \<Rightarrow>
                   if nullish data then []
                   else
                     (if js_get data ''type'' = JStr ''content_block_delta''
                         \<and> truthy (opt_get (js_get data ''delta'') ''text'')
                      then [content_chunk (opt_get (js_get data ''delta'') ''text'')] else [])
                   @ (if js_get data ''type'' = JStr ''message_stop'' then [finished_chunk] else [])))"

definition AnthropicLLM_stream ::
  "parse_fn \<Rightarrow> fetch_fn \<Rightarrow> BaseLLM \<Rightarrow> Message list \<Rightarrow> json list option \<Rightarrow> stream_result" where
  "AnthropicLLM_stream parse fetch llm msgs tools =
     (case validateMessages msgs of
        Inl e \<Rightarrow> (([], Some e), [])
      | Inr u \<Rightarrow>
          let req = anthropic_request llm (anthropic_data llm msgs tools True)
          in (case fetch req of
                Inl e \<Rightarrow> (([], Some e), [req])
              | Inr resp \<Rightarrow>
                  if \<not> ok resp then (([], Some (anthropic_api_error resp)), [req])
                  else (case body_reader resp of
                          None \<Rightarrow> (([], Some (Error ''Failed to get response reader'')), [req])
                        | Some pieces \<Rightarrow> ((read_loop (anthropic_line parse) [] pieces, None), [req]))))"

section \<open>simple-agent.ts: the Agent\<close>

text \<open>
  A tool call as a response carries it. \<open>call_function\<close> is the property \<^verbatim>\<open>function\<close>, a
  name and the arguments as a JSON text. By its type it is always there; at run time it
  can be missing (\<open>None\<close>): \<^verbatim>\<open>AnthropicLLM.chat\<close> returns the \<^verbatim>\<open>tool_use\<close> blocks of the
  response as they are, and they have no such property.
\<close>

record LLMToolCall =
  call_id :: string
  call_type :: string
  call_function :: "(string \<times> string) option"

type_synonym AgentLLMResponse = "(string, LLMToolCall list option) LLMResponse"
type_synonym AgentStreamChunk = "(string, LLMToolCall list) StreamChunk"

text \<open>
  The agent holds an abstract \<^verbatim>\<open>BaseLLM\<close>. Its two methods are parameters of the model: each
  takes the state of the LLM object and returns the new one. \<^verbatim>\<open>chat\<close> returns a response or
  throws; \<^verbatim>\<open>stream\<close> gives the chunks it yields when read to the end and the error that ends
  it, if one does.
\<close>

type_synonym 'l chat_fn =
  "'l \<Rightarrow> Message list \<Rightarrow> json list option \<Rightarrow> (thrown + AgentLLMResponse) \<times> 'l"
type_synonym 'l stream_fn =
  "'l \<Rightarrow> Message list \<Rightarrow> json list option \<Rightarrow> (AgentStreamChunk list \<times> thrown option) \<times> 'l"

text \<open>What the agent does to its collaborators, in the order it does it.\<close>

datatype effect =
    AddMessage Message
  | ExecuteTool ToolCall
  | LlmChat "Message list" "json list option"
  | LlmStream "Message list" "json list option"

text \<open>The fields of the agent; the memory is the default one, a \<open>SimpleDictMemory\<close>. \<open>trace\<close>
  is not a field of the class: it records the calls made so far, so that their number and
  order can be stated. The events the class emits have no effect on its state when no
  listener is registered, and are left out.\<close>

record ('l, 'v) Agent =
  agent_id :: string
  agent_name :: string
  llm :: 'l
  memory :: SimpleDictMemory
  toolRegistry :: "'v ToolRegistry"
  systemPrompt :: string
  maxMemoryMessages :: nat
  enableStreaming :: bool
  trace :: "effect list"

record ('l, 'v) SimpleAgentConfig =
  cfg_name :: "string option"
  cfg_llm :: 'l
  cfg_memory :: "SimpleDictMemory option"
  cfg_toolRegistry :: "'v ToolRegistry option"
  cfg_systemPrompt :: "string option"
  cfg_maxMemoryMessages :: "nat option"
  cfg_enableStreaming :: "bool option"

text \<open>The constructor; the id comes from \<^verbatim>\<open>uuidv4()\<close>. \<^verbatim>\<open>x || d\<close> takes the default also for an
  empty string and for 0.\<close>

definition new_Agent :: "string \<Rightarrow> ('l, 'v) SimpleAgentConfig \<Rightarrow> ('l, 'v) Agent" where
  "new_Agent uuid config =
     \<lparr>agent_id = uuid,
      agent_name = or_default (cfg_name config) ''NiflheimAgent'',
      llm = cfg_llm config,
      memory = (case cfg_memory config of Some m \<Rightarrow> m | None \<Rightarrow> new_SimpleDictMemory 1000),
      toolRegistry = (case cfg_toolRegistry config of Some r \<Rightarrow> r | None \<Rightarrow> []),
      systemPrompt = or_default (cfg_systemPrompt config) ''You are a helpful AI assistant.'',
      maxMemoryMessages = (case cfg_maxMemoryMessages config of
                             Some n \<Rightarrow> if n = 0 then 50 else n | None \<Rightarrow> 50),
      enableStreaming = (case cfg_enableStreaming config of Some b \<Rightarrow> b | None \<Rightarrow> False),
      trace = []\<rparr>"

definition Agent_addMessage :: "('l, 'v) Agent \<Rightarrow> Message \<Rightarrow> ('l, 'v) Agent" where
  "Agent_addMessage ag message =
     ag\<lparr>memory := SimpleDictMemory_addMessage (memory ag) message,
        trace := trace ag @ [AddMessage message]\<rparr>"

definition Agent_getMessages :: "('l, 'v) Agent \<Rightarrow> Message list" where
  "Agent_getMessages ag =
     (let msgs = SimpleDictMemory_getMessages (memory ag)
      in if length msgs > maxMemoryMessages ag
         then
           let systemMessages = filter (\<lambda>m. role m = System) msgs;
               otherMessages = filter (\<lambda>m. role m \<noteq> System) msgs;
               recentMessages =
                 js_slice (- int (maxMemoryMessages ag) + int (length systemMessages)) otherMessages
           in systemMessages @ recentMessages
         else msgs)"

text \<open>\<^verbatim>\<open>convertToolCalls\<close>: \<^verbatim>\<open>JSON.parse\<close> is a parameter. The first call that has no
  \<^verbatim>\<open>function\<close> (reading \<^verbatim>\<open>tc.function.name\<close> throws a \<^verbatim>\<open>TypeError\<close>) or whose argument text does
  not parse makes the whole conversion throw.\<close>

fun convertToolCalls :: "parse_fn \<Rightarrow> LLMToolCall list \<Rightarrow> thrown + ToolCall list" where
  "convertToolCalls parse [] = Inr []"
| "convertToolCalls parse (tc # tcs) =
     (case call_function tc of
        None \<Rightarrow> Inl type_error
      | Some (function_name, function_arguments) \<Rightarrow>
          (case parse function_arguments of
             Inl e \<Rightarrow> Inl e
           | Inr args \<Rightarrow>
               (case convertToolCalls parse tcs of
                  Inl e \<Rightarrow> Inl e
                | Inr cs \<Rightarrow> Inr (\<lparr>name = function_name, arguments = args, callId = call_id tc\<rparr> # cs))))"

text \<open>\<^verbatim>\<open>executeToolCalls\<close>: one \<^verbatim>\<open>await this.toolRegistry.executeTool(toolCall)\<close> after the
  other; a call whose promise is rejected ends the loop with that error.\<close>

fun executeToolCalls ::
  "('l, 'v) Agent \<Rightarrow> ToolCall list \<Rightarrow> (thrown + 'v ToolResult list) \<times> ('l, 'v) Agent" where
  "executeToolCalls ag [] = (Inr [], ag)"
| "executeToolCalls ag (toolCall # rest) =
     (let ag' = ag\<lparr>trace := trace ag @ [ExecuteTool toolCall]\<rparr>
      in case executeTool (toolRegistry ag) toolCall of
           Inl e \<Rightarrow> (Inl e, ag')
         | Inr r \<Rightarrow>
             (case executeToolCalls ag' rest of
                (Inl e, ag'') \<Rightarrow> (Inl e, ag'')
              | (Inr rs, ag'') \<Rightarrow> (Inr (r # rs), ag'')))"

definition user_message :: "string \<Rightarrow> Message" where
  "user_message text = \<lparr>role = User, content = Some text, toolCalls = None, toolCallId = None\<rparr>"

definition system_message :: "string \<Rightarrow> Message" where
  "system_message text = \<lparr>role = System, content = Some text, toolCalls = None, toolCallId = None\<rparr>"

definition assistant_message :: "string \<Rightarrow> ToolCall list option \<Rightarrow> Message" where
  "assistant_message text calls =
     \<lparr>role = Assistant, content = Some text, toolCalls = calls, toolCallId = None\<rparr>"

text \<open>
  The message for a tool result. Its content is \<^verbatim>\<open>result.error || JSON.stringify(result.result)\<close>:
  an error that is not empty is the content; otherwise the result is given to
  \<^verbatim>\<open>JSON.stringify\<close>, a parameter, which returns a string, returns \<^verbatim>\<open>undefined\<close> (\<open>None\<close>) or
  throws (on a value with a cycle or a \<^verbatim>\<open>BigInt\<close>). A result that is not there reads as
  \<^verbatim>\<open>undefined\<close>, for which \<^verbatim>\<open>JSON.stringify\<close> returns \<^verbatim>\<open>undefined\<close>.
\<close>

type_synonym 'v stringify_fn = "'v \<Rightarrow> thrown + string option"

definition tool_message_of :: "'v ToolResult \<Rightarrow> string option \<Rightarrow> Message" where
  "tool_message_of r c =
     \<lparr>role = Tool, content = c, toolCalls = None, toolCallId = Some (result_callId r)\<rparr>"

definition tool_message :: "'v stringify_fn \<Rightarrow> 'v ToolResult \<Rightarrow> thrown + Message" where
  "tool_message stringify r =
     (if error r \<noteq> None \<and> error r \<noteq> Some [] then Inr (tool_message_of r (error r))
      else case result r of
             None \<Rightarrow> Inr (tool_message_of r None)
           | Some v \<Rightarrow>
               (case stringify v of
                  Inl e \<Rightarrow> Inl e
                | Inr c \<Rightarrow> Inr (tool_message_of r c)))"

text \<open>The loop over the results: each message is built and added in turn; a result that
  \<^verbatim>\<open>JSON.stringify\<close> throws on ends the loop with that error.\<close>

fun add_tool_messages ::
  "'v stringify_fn \<Rightarrow> ('l, 'v) Agent \<Rightarrow> 'v ToolResult list \<Rightarrow> (thrown + unit) \<times> ('l, 'v) Agent" where
  "add_tool_messages stringify ag [] = (Inr (), ag)"
| "add_tool_messages stringify ag (r # rs) =
     (case tool_message stringify r of
        Inl e \<Rightarrow> (Inl e, ag)
      | Inr m \<Rightarrow> add_tool_messages stringify (Agent_addMessage ag m) rs)"

text \<open>\<^verbatim>\<open>if (!messages.some(m => m.role === MessageRole.System)) messages.unshift(...)\<close>\<close>

definition with_system_prompt :: "('l, 'v) Agent \<Rightarrow> Message list \<Rightarrow> Message list" where
  "with_system_prompt ag msgs =
     (if list_ex (\<lambda>m. role m = System) msgs then msgs
      else system_message (systemPrompt ag) # msgs)"

text \<open>\<^verbatim>\<open>await this.llm.chat(messages, tools)\<close>\<close>

definition call_llm ::
  "'l chat_fn \<Rightarrow> ('l, 'v) Agent \<Rightarrow> Message list \<Rightarrow> json list option \<Rightarrow>
   (thrown + AgentLLMResponse) \<times> ('l, 'v) Agent" where
  "call_llm chat ag msgs tools =
     (case chat (llm ag) msgs tools of
        (r, l) \<Rightarrow> (r, ag\<lparr>llm := l, trace := trace ag @ [LlmChat msgs tools]\<rparr>))"

record AgentResponse =
  final_content :: string
  all_toolCalls :: "ToolCall list"
  meta_agentId :: string
  meta_agentName :: string
  meta_messageCount :: nat
  response_usage :: "Usage option"
  finishReason :: string

text \<open>The end of \<^verbatim>\<open>chat\<close>: the final assistant message is added and the response is built. The
  usage is that of the first response.\<close>

definition finish_chat ::
  "('l, 'v) Agent \<Rightarrow> AgentLLMResponse \<Rightarrow> string \<Rightarrow> ToolCall list \<Rightarrow> (thrown + AgentResponse) \<times> ('l, 'v) Agent" where
  "finish_chat ag response finalContent allToolCalls =
     (let ag' = Agent_addMessage ag (assistant_message finalContent None)
      in (Inr \<lparr>final_content = finalContent,
               all_toolCalls = allToolCalls,
               meta_agentId = agent_id ag',
               meta_agentName = agent_name ag',
               meta_messageCount = length (SimpleDictMemory_getMessages (memory ag')),
               response_usage =
                 (case usage response of
                    None \<Rightarrow> None
                  | Some u \<Rightarrow> Some \<lparr>promptTokens = js_or (promptTokens u) (JNum 0),
                                      completionTokens = js_or (completionTokens u) (JNum 0),
                                      totalTokens = js_or (totalTokens u) (JNum 0)\<rparr>),
               finishReason = ''stop''\<rparr>,
          ag'))"

text \<open>
  The start of \<^verbatim>\<open>chat\<close> and of \<^verbatim>\<open>stream\<close>, after the user message has been added: the
  history, with the system prompt put in front when it holds no system message, and the
  tools, left out when there are none.
\<close>

definition first_request :: "('l, 'v) Agent \<Rightarrow> string \<Rightarrow> Message list \<times> json list option" where
  "first_request ag userMessage =
     (let ag1 = Agent_addMessage ag (user_message userMessage);
          tools = getOpenAITools (toolRegistry ag1)
      in (with_system_prompt ag1 (Agent_getMessages ag1),
          if tools \<noteq> [] then Some tools else None))"

text \<open>
  The tool round of \<^verbatim>\<open>chat\<close>: the converted calls are executed, then the assistant message
  that carries them and one tool message per result are added.
\<close>

definition resolve_tools ::
  "'v stringify_fn \<Rightarrow> ('l, 'v) Agent \<Rightarrow> string \<Rightarrow> ToolCall list \<Rightarrow> (thrown + unit) \<times> ('l, 'v) Agent" where
  "resolve_tools stringify ag text convertedToolCalls =
     (case executeToolCalls ag convertedToolCalls of
        (Inl e, ag3) \<Rightarrow> (Inl e, ag3)
      | (Inr toolResults, ag3) \<Rightarrow>
          add_tool_messages stringify
            (Agent_addMessage ag3 (assistant_message text (Some convertedToolCalls)))
            toolResults)"

text \<open>
  The follow-up of \<^verbatim>\<open>chat\<close>: the model is asked once more, with the history as it is now and
  no tools; the calls of the second response are converted and recorded, not executed.
\<close>

definition followup ::
  "parse_fn \<Rightarrow> 'l chat_fn \<Rightarrow> ('l, 'v) Agent \<Rightarrow> AgentLLMResponse \<Rightarrow> ToolCall list \<Rightarrow>
   (thrown + AgentResponse) \<times> ('l, 'v) Agent" where
  "followup parse chat ag response convertedToolCalls =
     (case call_llm chat ag (Agent_getMessages ag) None of
        (Inl e, ag6) \<Rightarrow> (Inl e, ag6)
      | (Inr followupResponse, ag6) \<Rightarrow>
          (case (case response_toolCalls followupResponse of
                   None \<Rightarrow> Inr []
                 | Some calls \<Rightarrow> convertToolCalls parse calls) of
             Inl e \<Rightarrow> (Inl e, ag6)
           | Inr followupConverted \<Rightarrow>
               finish_chat ag6 response (response_content followupResponse)
                 (convertedToolCalls @ followupConverted)))"

text \<open>The branch of \<^verbatim>\<open>chat\<close> for a first response that carries tool calls.\<close>

definition chat_with_tools ::
  "parse_fn \<Rightarrow> 'v stringify_fn \<Rightarrow> 'l chat_fn \<Rightarrow> ('l, 'v) Agent \<Rightarrow> AgentLLMResponse \<Rightarrow>
   LLMToolCall list \<Rightarrow> (thrown + AgentResponse) \<times> ('l, 'v) Agent" where
  "chat_with_tools parse stringify chat ag response llmToolCalls =
     (case convertToolCalls parse llmToolCalls of
        Inl e \<Rightarrow> (Inl e, ag)
      | Inr convertedToolCalls \<Rightarrow>
          (case resolve_tools stringify ag (response_content response) convertedToolCalls of
             (Inl e, ag5) \<Rightarrow> (Inl e, ag5)
           | (Inr u, ag5) \<Rightarrow> followup parse chat ag5 response convertedToolCalls))"

text \<open>\<^verbatim>\<open>chat\<close>. An error thrown inside the \<^verbatim>\<open>try\<close> is thrown again by the \<^verbatim>\<open>catch\<close> as it is.\<close>

definition Agent_chat ::
  "parse_fn \<Rightarrow> 'v stringify_fn \<Rightarrow> 'l chat_fn \<Rightarrow> ('l, 'v) Agent \<Rightarrow> string \<Rightarrow>
   (thrown + AgentResponse) \<times> ('l, 'v) Agent" where
  "Agent_chat parse stringify chat ag userMessage =
     (let ag1 = Agent_addMessage ag (user_message userMessage)
      in case call_llm chat ag1 (fst (first_request ag userMessage))
                (snd (first_request ag userMessage)) of
           (Inl e, ag2) \<Rightarrow> (Inl e, ag2)
         | (Inr response, ag2) \<Rightarrow>
             (case response_toolCalls response of
                Some (tc # tcs) \<Rightarrow> chat_with_tools parse stringify chat ag2 response (tc # tcs)
              | _ \<Rightarrow> finish_chat ag2 response (response_content response) []))"

text \<open>
  \<^verbatim>\<open>stream\<close> is a generator: its body runs only while the caller asks for the next chunk, and
  a caller that leaves its loop closes the generator at the \<^verbatim>\<open>yield\<close> where it stands, so that
  nothing after that \<^verbatim>\<open>yield\<close> runs. The caller is a parameter: given the chunks received so
  far (the last is the one just yielded), it says whether it leaves now. On the empty list it
  says whether it never asks for a chunk at all.
\<close>

type_synonym caller = "AgentStreamChunk list \<Rightarrow> bool"

text \<open>How the loop over the chunks of the LLM ends: the stream is exhausted, the loop is left
  by \<^verbatim>\<open>break\<close> after a chunk with \<^verbatim>\<open>finished\<close> set, or the caller has closed the generator.\<close>

datatype loop_exit = Exhausted | Broke | Left

text \<open>How the generator ends for the caller: it is done, it throws, or the caller closed it.\<close>

datatype stream_end = Completed | Failed thrown | Closed

text \<open>
  The loop of \<^verbatim>\<open>stream\<close>: a content that is not empty is appended to the text so far, the
  chunk is yielded, and, if the caller comes back, a chunk with \<^verbatim>\<open>finished\<close> set ends the loop.
  The result is the chunks yielded, the text, and how the loop ended.
\<close>

fun stream_loop ::
  "caller \<Rightarrow> AgentStreamChunk list \<Rightarrow> AgentStreamChunk list \<Rightarrow> string \<Rightarrow>
   AgentStreamChunk list \<times> string \<times> loop_exit" where
  "stream_loop leaves [] received fullContent = (received, fullContent, Exhausted)"
| "stream_loop leaves (chunk # chunks) received fullContent =
     (let fullContent' = (case chunk_content chunk of
                            None \<Rightarrow> fullContent
                          | Some c \<Rightarrow> if c = [] then fullContent else fullContent @ c)
      in if leaves (received @ [chunk]) then (received @ [chunk], fullContent', Left)
         else if finished chunk = Some True then (received @ [chunk], fullContent', Broke)
         else stream_loop leaves chunks (received @ [chunk]) fullContent')"

text \<open>\<^verbatim>\<open>stream\<close>: the chunks the caller receives, how the generator ends, and the agent
  afterwards. The assistant message is added after the loop, when the text is not empty.\<close>

definition Agent_stream ::
  "caller \<Rightarrow> 'l stream_fn \<Rightarrow> ('l, 'v) Agent \<Rightarrow> string \<Rightarrow>
   AgentStreamChunk list \<times> stream_end \<times> ('l, 'v) Agent" where
  "Agent_stream leaves stream ag userMessage =
     (if leaves [] then ([], Closed, ag)
      else
        let ag1 = Agent_addMessage ag (user_message userMessage);
            msgs = fst (first_request ag userMessage);
            toolsArg = snd (first_request ag userMessage)
        in case stream (llm ag1) msgs toolsArg of
             ((chunks, failure), l) \<Rightarrow>
               let ag2 = ag1\<lparr>llm := l, trace := trace ag1 @ [LlmStream msgs toolsArg]\<rparr>;
                   commit = (\<lambda>fullContent.
                               if fullContent = [] then ag2
                               else Agent_addMessage ag2 (assistant_message fullContent None))
               in (case stream_loop leaves chunks [] [] of
                     (received, fullContent, Left) \<Rightarrow> (received, Closed, ag2)
                   | (received, fullContent, Broke) \<Rightarrow> (received, Completed, commit fullContent)
                   | (received, fullContent, Exhausted) \<Rightarrow>
                       (case failure of
                          Some e \<Rightarrow> (received, Failed e, ag2)
                        | None \<Rightarrow> (received, Completed, commit fullContent))))"

definition Agent_getInfo :: "('l, 'v) Agent \<Rightarrow> string \<times> string \<times> nat" where
  "Agent_getInfo ag =
     (agent_id ag, agent_name ag, length (SimpleDictMemory_getMessages (memory ag)))"

definition Agent_getSessionId :: "('l, 'v) Agent \<Rightarrow> string" where
  "Agent_getSessionId ag = agent_id ag"

definition Agent_registerTool :: "('l, 'v) Agent \<Rightarrow> 'v Tool \<Rightarrow> ('l, 'v) Agent" where
  "Agent_registerTool ag tool = ag\<lparr>toolRegistry := registerTool (toolRegistry ag) tool\<rparr>"

definition Agent_clearHistory :: "('l, 'v) Agent \<Rightarrow> ('l, 'v) Agent" where
  "Agent_clearHistory ag = ag\<lparr>memory := SimpleDictMemory_clear (memory ag)\<rparr>"

text \<open>Readers of the trace: the messages added, the tools executed and the requests made to
  the LLM, each in order.\<close>

fun added_messages :: "effect list \<Rightarrow> Message list" where
  "added_messages [] = []"
| "added_messages (AddMessage m # es) = m # added_messages es"
| "added_messages (e # es) = added_messages es"

fun executed_tools :: "effect list \<Rightarrow> ToolCall list" where
  "executed_tools [] = []"
| "executed_tools (ExecuteTool c # es) = c # executed_tools es"
| "executed_tools (e # es) = executed_tools es"

fun llm_requests :: "effect list \<Rightarrow> (Message list \<times> json list option) list" where
  "llm_requests [] = []"
| "llm_requests (LlmChat ms ts # es) = (ms, ts) # llm_requests es"
| "llm_requests (e # es) = llm_requests es"

section \<open>Notions used to state the properties\<close>

text \<open>The text of a list of complete lines: each line followed by a line feed.\<close>

definition lines_text :: "string list \<Rightarrow> string" where
  "lines_text ls = concat (map (\<lambda>l. l @ [CHR 0x0A]) ls)"

text \<open>The results of executing a list of calls one after the other, or the error of the first
  call that throws; and the tool messages for a list of results, or the error of the first
  result that \<^verbatim>\<open>JSON.stringify\<close> throws on.\<close>

fun tool_results :: "'v ToolRegistry \<Rightarrow> ToolCall list \<Rightarrow> thrown + 'v ToolResult list" where
  "tool_results reg [] = Inr []"
| "tool_results reg (c # cs) =
     (case executeTool reg c of
        Inl e \<Rightarrow> Inl e
      | Inr r \<Rightarrow> (case tool_results reg cs of Inl e \<Rightarrow> Inl e | Inr rs \<Rightarrow> Inr (r # rs)))"

fun tool_messages :: "'v stringify_fn \<Rightarrow> 'v ToolResult list \<Rightarrow> thrown + Message list" where
  "tool_messages stringify [] = Inr []"
| "tool_messages stringify (r # rs) =
     (case tool_message stringify r of
        Inl e \<Rightarrow> Inl e
      | Inr m \<Rightarrow> (case tool_messages stringify rs of Inl e \<Rightarrow> Inl e | Inr ms \<Rightarrow> Inr (m # ms)))"

text \<open>The agent as it stands when the follow-up request is made: the user message added,
  the first response received (the LLM now in state \<open>l1\<close>), the calls executed and the
  assistant and tool messages added.\<close>

definition before_followup ::
  "'v stringify_fn \<Rightarrow> ('l, 'v) Agent \<Rightarrow> string \<Rightarrow> 'l \<Rightarrow> AgentLLMResponse \<Rightarrow> ToolCall list \<Rightarrow>
   ('l, 'v) Agent" where
  "before_followup stringify ag userMessage l1 response convertedToolCalls =
     snd (resolve_tools stringify
            ((Agent_addMessage ag (user_message userMessage))
               \<lparr>llm := l1,
                trace := trace ag @ [AddMessage (user_message userMessage),
                                     LlmChat (fst (first_request ag userMessage))
                                             (snd (first_request ag userMessage))]\<rparr>)
            (response_content response) convertedToolCalls)"

text \<open>The chunks of a stream up to and with the first one that has \<open>finished\<close> set, and the
  text a chunk adds.\<close>

fun upto_finished :: "AgentStreamChunk list \<Rightarrow> AgentStreamChunk list" where
  "upto_finished [] = []"
| "upto_finished (c # cs) = (if finished c = Some True then [c] else c # upto_finished cs)"

definition delta_text :: "AgentStreamChunk \<Rightarrow> string" where
  "delta_text c = (case chunk_content c of None \<Rightarrow> [] | Some s \<Rightarrow> s)"

section \<open>Concrete inputs for the examples\<close>

definition sample_call :: "string \<Rightarrow> ToolCall" where
  "sample_call n = \<lparr>name = n, arguments = JObj [(''city'', JStr ''Tokyo'')], callId = ''call_1''\<rparr>"

text \<open>A tool with a timeout of one second whose handler always behaves the same way; its
  results are JSON values.\<close>

definition sample_tool :: "string \<Rightarrow> json handler_outcome \<Rightarrow> json Tool" where
  "sample_tool n outcome =
     \<lparr>tool_name = n, description = ''a tool'', handler = (\<lambda>args. outcome),
      parameters = JObj [], timeout = 1\<rparr>"

text \<open>A tool-call-only assistant turn: empty content, one tool call.\<close>

definition tool_call_only_turn :: Message where
  "tool_call_only_turn = assistant_message [] (Some [sample_call ''get_weather''])"

text \<open>An adapter configuration, a network that fails, and an addition that is never reached.\<close>

definition sample_llm :: BaseLLM where
  "sample_llm = \<lparr>model = ''gpt-4'', apiKey = ''key'', baseURL = None,
                  temperature = JNum 1, maxTokens = None\<rparr>"

definition offline :: fetch_fn where
  "offline req = Inl (Error ''fetch failed'')"

definition no_add :: "json \<Rightarrow> json \<Rightarrow> json" where
  "no_add a b = JUndefined"

text \<open>One streamed payload and what \<^verbatim>\<open>JSON.parse\<close> makes of it. \<open>sample_parse\<close> agrees with
  \<^verbatim>\<open>JSON.parse\<close> on this payload, on \<^verbatim>\<open>{}\<close> and on the empty text, which is all the examples
  feed it; it is not a JSON parser.\<close>

definition sample_payload :: string where
  \<open>sample_payload = ''{"choices":[{"delta":{"content":"Hi"}}]}''\<close>

definition sample_parse :: parse_fn where
  "sample_parse s =
     (if s = sample_payload
      then Inr (JObj [(''choices'', JArr [JObj [(''delta'', JObj [(''content'', JStr ''Hi'')])]])])
      else if s = ''{}'' then Inr (JObj [])
      else Inl (Error ''SyntaxError''))"

text \<open>A streamed body in one piece: the done line first, a data line after it.\<close>

definition data_line :: string where
  "data_line = ''data: '' @ sample_payload"

definition done_then_data :: string where
  "done_then_data = ''data: [DONE]'' @ [CHR 0x0A] @ data_line @ [CHR 0x0A]"

definition streaming :: "string list \<Rightarrow> fetch_fn" where
  "streaming pieces req = Inr \<lparr>ok = True, status = 200, body_text = [], body_reader = Some pieces\<rparr>"

text \<open>An agent with the default prompt and memory and one tool, and an LLM that counts its
  calls: the first answer asks for the weather tool, every later one is plain text.\<close>

definition weather_tool :: "json Tool" where
  "weather_tool = sample_tool ''get_weather'' (ResolvesAt 20 False (JStr ''Sunny''))"

definition sample_agent :: "(nat, json) Agent" where
  "sample_agent =
     new_Agent ''agent-1''
       \<lparr>cfg_name = None, cfg_llm = 0, cfg_memory = None,
        cfg_toolRegistry = Some (registerTool [] weather_tool),
        cfg_systemPrompt = None, cfg_maxMemoryMessages = None, cfg_enableStreaming = None\<rparr>"


text \<open>The same agent with a tool that throws an object that has no string form
  (\<^verbatim>\<open>throw Object.create(null)\<close>).\<close>

definition throwing_agent :: "(nat, json) Agent" where
  "throwing_agent =
     new_Agent ''agent-3''
       \<lparr>cfg_name = None, cfg_llm = 0, cfg_memory = None,
        cfg_toolRegistry = Some (registerTool [] (sample_tool ''get_weather'' (Throws 0 bare_object))),
        cfg_systemPrompt = None, cfg_maxMemoryMessages = None, cfg_enableStreaming = None\<rparr>"

definition llm_call :: "string \<Rightarrow> LLMToolCall" where
  "llm_call args = \<lparr>call_id = ''call_1'', call_type = ''function'',
                    call_function = Some (''get_weather'', args)\<rparr>"

definition asks_tool :: "string \<Rightarrow> nat chat_fn" where
  "asks_tool args l msgs tools =
     (if l = 0
      then (Inr \<lparr>response_content = ''Checking'', usage = None,
                 response_toolCalls = Some [llm_call args]\<rparr>, Suc l)
      else (Inr \<lparr>response_content = ''Sunny in Tokyo'', usage = None,
                 response_toolCalls = None\<rparr>, Suc l))"



text \<open>\<open>sample_stringify\<close> agrees with \<^verbatim>\<open>JSON.stringify\<close> on \<^verbatim>\<open>undefined\<close> and on \<^verbatim>\<open>"Sunny"\<close>, the
  one string the examples give it (none of its characters needs an escape); it is not
  \<^verbatim>\<open>JSON.stringify\<close>.\<close>

definition sample_stringify :: "json stringify_fn" where
  "sample_stringify j =
     (case j of
        JStr s \<Rightarrow> Inr (Some ([CHR 0x22] @ s @ [CHR 0x22]))
      | JUndefined \<Rightarrow> Inr None
      | _ \<Rightarrow> Inl (Error ''not a sample value''))"






text \<open>An LLM that asks for the weather tool in every answer.\<close>

definition asks_always :: "nat chat_fn" where
  "asks_always l msgs tools =
     (Inr \<lparr>response_content = ''Checking'', usage = None,
            response_toolCalls = Some [llm_call ''{}'']\<rparr>, Suc l)"

section \<open>Properties of the memory backends\<close>

lemma js_slice_neg: "0 < n \<Longrightarrow> js_slice (- int n) xs = drop (length xs - n) xs"
  by (auto simp: js_slice_def Let_def max_def nat_diff_distrib' intro: arg_cong2 [where f = drop])

lemma js_slice_zero: "js_slice 0 xs = xs"
  by (simp add: js_slice_def)

lemma SimpleDictMemory_addMessage_messages:
  "0 < maxMessages mem \<Longrightarrow>
   messages (SimpleDictMemory_addMessage mem m) =
     drop (Suc (length (messages mem)) - maxMessages mem) (messages mem @ [m])"
  by (simp add: SimpleDictMemory_addMessage_def Let_def js_slice_neg)

lemma SimpleDictMemory_addMessage_maxMessages [simp]:
  "maxMessages (SimpleDictMemory_addMessage mem m) = maxMessages mem"
  by (simp add: SimpleDictMemory_addMessage_def Let_def)

lemma SimpleDictMemory_addAll_maxMessages [simp]:
  "maxMessages (SimpleDictMemory_addAll mem ms) = maxMessages mem"
  unfolding SimpleDictMemory_addAll_def by (induction ms arbitrary: mem) simp_all

lemma SimpleDictMemory_addAll_snoc:
  "SimpleDictMemory_addAll mem (ms @ [m]) = SimpleDictMemory_addMessage (SimpleDictMemory_addAll mem ms) m"
  by (simp add: SimpleDictMemory_addAll_def)

lemma drop_drop_snoc:
  "drop (Suc (length (drop b xs)) - n) (drop b xs @ [m]) = drop (Suc (length xs) - n) (xs @ [m])"
  if "b = length xs - n" "0 < n"
  using that by (cases "length xs \<le> n") (simp_all add: Suc_diff_le)

lemma SimpleDictMemory_addAll_messages:
  assumes "0 < maxMessages mem" "length (messages mem) \<le> maxMessages mem"
  shows "messages (SimpleDictMemory_addAll mem ms) =
         drop (length (messages mem @ ms) - maxMessages mem) (messages mem @ ms)"
proof (induction ms rule: rev_induct)
  case Nil
  show ?case using assms by (simp add: SimpleDictMemory_addAll_def)
next
  case (snoc m ms)
  let ?n = "maxMessages mem"
  let ?all = "messages mem @ ms"
  let ?kept = "drop (length ?all - ?n) ?all"
  have "messages (SimpleDictMemory_addAll mem (ms @ [m])) =
        drop (Suc (length (messages (SimpleDictMemory_addAll mem ms))) - ?n)
          (messages (SimpleDictMemory_addAll mem ms) @ [m])"
    using assms(1)
    by (simp only: SimpleDictMemory_addAll_snoc SimpleDictMemory_addMessage_messages
          SimpleDictMemory_addAll_maxMessages)
  also have "\<dots> = drop (Suc (length ?kept) - ?n) (?kept @ [m])"
    by (simp only: snoc.IH)
  also have "\<dots> = drop (Suc (length ?all) - ?n) (?all @ [m])"
    using assms(1) by (intro drop_drop_snoc) simp_all
  finally show ?case
    by (simp only: append_assoc length_append list.size add_Suc_right add_0_right)
qed

lemma SimpleDictMemory_zero_addMessage:
  "maxMessages mem = 0 \<Longrightarrow> messages (SimpleDictMemory_addMessage mem m) = messages mem @ [m]"
  by (simp add: SimpleDictMemory_addMessage_def Let_def js_slice_zero)

lemma SimpleDictMemory_zero_addAll:
  "maxMessages mem = 0 \<Longrightarrow> messages (SimpleDictMemory_addAll mem ms) = messages mem @ ms"
  by (induction ms rule: rev_induct)
     (simp_all add: SimpleDictMemory_addAll_snoc SimpleDictMemory_zero_addMessage, simp add: SimpleDictMemory_addAll_def)


lemma DictMemory_addMessage_stored:
  "0 < session_maxMessages mem \<Longrightarrow>
   stored (DictMemory_addMessage mem sid m) sid =
     drop (Suc (length (stored mem sid)) - session_maxMessages mem) (stored mem sid @ [m])"
  by (simp add: stored_def DictMemory_getMessages_def DictMemory_addMessage_def Let_def js_slice_neg)

lemma DictMemory_addMessage_maxMessages [simp]:
  "session_maxMessages (DictMemory_addMessage mem sid m) = session_maxMessages mem"
  by (simp add: DictMemory_addMessage_def Let_def)

lemma DictMemory_addAll_maxMessages [simp]:
  "session_maxMessages (DictMemory_addAll mem sid ms) = session_maxMessages mem"
  unfolding DictMemory_addAll_def by (induction ms arbitrary: mem) simp_all

lemma DictMemory_addAll_snoc:
  "DictMemory_addAll mem sid (ms @ [m]) = DictMemory_addMessage (DictMemory_addAll mem sid ms) sid m"
  by (simp add: DictMemory_addAll_def)

lemma DictMemory_addAll_stored:
  assumes "0 < session_maxMessages mem" "length (stored mem sid) \<le> session_maxMessages mem"
  shows "stored (DictMemory_addAll mem sid ms) sid =
         drop (length (stored mem sid @ ms) - session_maxMessages mem) (stored mem sid @ ms)"
proof (induction ms rule: rev_induct)
  case Nil
  show ?case using assms by (simp add: DictMemory_addAll_def)
next
  case (snoc m ms)
  let ?n = "session_maxMessages mem"
  let ?all = "stored mem sid @ ms"
  let ?kept = "drop (length ?all - ?n) ?all"
  have "stored (DictMemory_addAll mem sid (ms @ [m])) sid =
        drop (Suc (length (stored (DictMemory_addAll mem sid ms) sid)) - ?n)
          (stored (DictMemory_addAll mem sid ms) sid @ [m])"
    using assms(1)
    by (simp only: DictMemory_addAll_snoc DictMemory_addMessage_stored
          DictMemory_addAll_maxMessages)
  also have "\<dots> = drop (Suc (length ?kept) - ?n) (?kept @ [m])"
    by (simp only: snoc.IH)
  also have "\<dots> = drop (Suc (length ?all) - ?n) (?all @ [m])"
    using assms(1) by (intro drop_drop_snoc) simp_all
  finally show ?case
    by (simp only: append_assoc length_append list.size add_Suc_right add_0_right)
qed

lemma DictMemory_zero_addMessage:
  "session_maxMessages mem = 0 \<Longrightarrow>
   stored (DictMemory_addMessage mem sid m) sid = stored mem sid @ [m]"
  by (simp add: stored_def DictMemory_getMessages_def DictMemory_addMessage_def Let_def js_slice_zero)

lemma DictMemory_zero_addAll:
  "session_maxMessages mem = 0 \<Longrightarrow> stored (DictMemory_addAll mem sid ms) sid = stored mem sid @ ms"
  by (induction ms rule: rev_induct)
     (simp_all add: DictMemory_addAll_snoc DictMemory_zero_addMessage, simp add: DictMemory_addAll_def)

text \<open>
  With a capacity of at least 1 both backends keep, per session, the most recent messages in
  the order they were added, and never more than the capacity.
\<close>

lemma positive_capacity_keeps_most_recent:
  assumes "0 < n"
  shows "messages (SimpleDictMemory_addAll (new_SimpleDictMemory n) ms) = drop (length ms - n) ms \<and>
         length (messages (SimpleDictMemory_addAll (new_SimpleDictMemory n) ms)) \<le> n \<and>
         DictMemory_getMessages (DictMemory_addAll (new_DictMemory n) sid ms) sid None = drop (length ms - n) ms \<and>
         length (DictMemory_getMessages (DictMemory_addAll (new_DictMemory n) sid ms) sid None) \<le> n"
  using assms SimpleDictMemory_addAll_messages [of "new_SimpleDictMemory n" ms]
        DictMemory_addAll_stored [of "new_DictMemory n" sid ms]
  by (simp add: new_SimpleDictMemory_def new_DictMemory_def stored_def DictMemory_getMessages_def)

text \<open>
  Claim C10 (the stored list of a session never exceeds \<open>maxMessages\<close> entries): it fails for
  a capacity of 0. The first \<^verbatim>\<open>addMessage\<close> makes the length exceed the capacity, the trimming
  branch is taken, and \<^verbatim>\<open>slice(-0)\<close> returns the whole array: a memory of capacity 0 keeps every
  message ever added, in both backends.
\<close>

theorem C10_capacity_zero_never_trims:
  "messages (SimpleDictMemory_addAll (new_SimpleDictMemory 0) ms) = ms \<and>
   DictMemory_getMessages (DictMemory_addAll (new_DictMemory 0) sid ms) sid None = ms"
  using SimpleDictMemory_zero_addAll [of "new_SimpleDictMemory 0" ms]
        DictMemory_zero_addAll [of "new_DictMemory 0" sid ms]
  by (simp add: new_SimpleDictMemory_def new_DictMemory_def stored_def DictMemory_getMessages_def)

section \<open>Properties of the tool registry\<close>

lemma timer_ms_in_range:
  "1 \<le> timeout tool * 1000 \<Longrightarrow> timeout tool * 1000 \<le> 2147483647 \<Longrightarrow>
   timer_ms tool = of_int \<lfloor>timeout tool * 1000\<rfloor> \<and> timer_ms tool \<le> timeout tool * 1000"
  by (simp add: timer_ms_def Let_def)

lemma timer_ms_out_of_range:
  "timeout tool * 1000 < 1 \<or> 2147483647 < timeout tool * 1000 \<Longrightarrow> timer_ms tool = 1"
  by (auto simp: timer_ms_def Let_def)

lemma executeTool_found:
  "getTool reg (name toolCall) = Some tool \<Longrightarrow>
   executeTool reg toolCall =
     (case race (handler tool (arguments toolCall)) (timer_ms tool) of
        (Inr v, t) \<Rightarrow>
          Inr \<lparr>result_callId = callId toolCall, result = Some v, error = None,
               executionTime = nat \<lfloor>t\<rfloor>\<rparr>
      | (Inl e, t) \<Rightarrow>
          (case error_message e of
             Inl e' \<Rightarrow> Inl e'
           | Inr msg \<Rightarrow>
               Inr \<lparr>result_callId = callId toolCall, result = None, error = Some msg,
                    executionTime = nat \<lfloor>t\<rfloor>\<rparr>))"
  by (simp add: executeTool_def)


lemma error_message_throws: "error_message e = Inl e' \<longleftrightarrow> e = Inconvertible e'"
  by (cases e) auto

text \<open>With a timeout of at least one millisecond, a promise that a later event fulfils
  after the timeout has elapsed, and after the callback of the timer has run, loses the
  race.\<close>

lemma late_promise_times_out:
  assumes "getTool reg (name toolCall) = Some tool"
    and "handler tool (arguments toolCall) = ResolvesAt t False v"
    and "1 \<le> timeout tool * 1000" and "timeout tool * 1000 < t"
  shows "\<exists>r. executeTool reg toolCall = Inr r \<and> error r = Some ''Tool execution timeout''
             \<and> result r = None"
proof -
  have "timer_ms tool \<le> t"
  proof (cases "timeout tool * 1000 \<le> 2147483647")
    case True
    with assms(3) have "timer_ms tool \<le> timeout tool * 1000"
      by (simp add: timer_ms_in_range)
    with assms(4) show ?thesis by simp
  next
    case False
    then have "timer_ms tool = 1"
      by (simp add: timer_ms_out_of_range)
    with assms(3,4) show ?thesis by simp
  qed
  with assms(1,2) show ?thesis
    by (simp add: executeTool_found timeout_error_def)
qed

text \<open>A timeout of more than 2147483.647 seconds arms a timer of 1 ms: a handler that
  resolves after 20 ms then loses the race.\<close>

lemma huge_timeout_fires_at_once:
  "executeTool
     [(''get_weather'', (sample_tool ''get_weather'' (ResolvesAt 20 False (JStr ''Sunny'')))
                          \<lparr>timeout := 2147484\<rparr>)]
     (sample_call ''get_weather'')
   = Inr \<lparr>result_callId = ''call_1'', result = None, error = Some ''Tool execution timeout'',
          executionTime = 1\<rparr>"
  by (simp add: executeTool_def getTool_def sample_tool_def sample_call_def timer_ms_def
        timeout_error_def)

text \<open>
  Claim C4 (a handler that resolves strictly after the timeout has elapsed always gives the
  error \<^verbatim>\<open>Tool execution timeout\<close> and never a result) does not hold as it stands. The timer's
  callback runs only when the event loop comes to it, and a handler that keeps the thread
  until it is done lets nothing else run. The handler of this tool, registered with a
  timeout of one second, runs for 1100 ms without giving up the thread and then returns
  \<^verbatim>\<open>'late'\<close>: its promise is fulfilled before the callback of the timer, due for 100 ms, can
  run, and \<^verbatim>\<open>executeTool\<close> returns the result and no error.
\<close>

theorem C4_late_blocking_handler_returns_result:
  "timer_ms (sample_tool ''slow'' (Returns 1100 (JStr ''late''))) = 1000
   \<and> executeTool (registerTool [] (sample_tool ''slow'' (Returns 1100 (JStr ''late''))))
       (sample_call ''slow'')
     = Inr \<lparr>result_callId = ''call_1'', result = Some (JStr ''late''), error = None,
            executionTime = 1100\<rparr>"
  by (simp add: executeTool_def getTool_def registerTool_def sample_tool_def sample_call_def
        timer_ms_def)

text \<open>
  Claim C4, as amended: for a registered tool, if the promise of the handler is still
  pending when the event loop runs the callback of the timer (the handler has returned a
  pending promise, which nothing settles before the timer is due and before its callback
  runs, or which never settles), \<^verbatim>\<open>executeTool\<close> returns a result with the error
  \<^verbatim>\<open>Tool execution timeout\<close> and no \<open>result\<close>, whatever the promise is settled with later.
  The timer is due \<open>timer_ms tool\<close> milliseconds after it is armed: the timeout times 1000
  with its fraction dropped, and 1 when that is not within 1 .. 2147483647.
\<close>

theorem C4_pending_at_timer_times_out:
  assumes "getTool reg (name toolCall) = Some tool"
    and "pending_at_timer (handler tool (arguments toolCall)) (timer_ms tool)"
  shows "executeTool reg toolCall
           = Inr \<lparr>result_callId = callId toolCall, result = None,
                   error = Some ''Tool execution timeout'',
                   executionTime = nat \<lfloor>timer_ms tool\<rfloor>\<rparr>"
  using assms
  by (cases "handler tool (arguments toolCall)")
     (auto simp: executeTool_found timeout_error_def)

theorem C4_pending_at_timer_times_out_witness:
  "getTool (registerTool [] (sample_tool ''slow'' (ResolvesAt 1500 False (JStr ''late''))))
     (name (sample_call ''slow''))
     = Some (sample_tool ''slow'' (ResolvesAt 1500 False (JStr ''late'')))
   \<and> pending_at_timer
         (handler (sample_tool ''slow'' (ResolvesAt 1500 False (JStr ''late'')))
            (arguments (sample_call ''slow'')))
         (timer_ms (sample_tool ''slow'' (ResolvesAt 1500 False (JStr ''late''))))
   \<and> executeTool (registerTool [] (sample_tool ''slow'' (ResolvesAt 1500 False (JStr ''late''))))
       (sample_call ''slow'')
     = Inr \<lparr>result_callId = ''call_1'', result = None, error = Some ''Tool execution timeout'',
            executionTime = 1000\<rparr>"
proof -
  let ?tool = "sample_tool ''slow'' (ResolvesAt 1500 False (JStr ''late''))"
  have found: "getTool (registerTool [] ?tool) (name (sample_call ''slow'')) = Some ?tool"
    by (simp add: getTool_def registerTool_def sample_tool_def sample_call_def)
  have timer: "timer_ms ?tool = 1000"
    by (simp add: timer_ms_def sample_tool_def)
  have late: "pending_at_timer (handler ?tool (arguments (sample_call ''slow''))) (timer_ms ?tool)"
    unfolding timer by (simp add: sample_tool_def)
  from C4_pending_at_timer_times_out [OF found late] found late timer
  show ?thesis by (simp add: sample_call_def)
qed




section \<open>Properties of the adapters\<close>

declare decimal.simps [simp del]

lemma validateMessages_invalid:
  assumes "msgs = [] \<or> (\<exists>m \<in> set msgs. no_content m)"
  shows "validateMessages msgs =
           Inl (Error (if msgs = [] then ''Messages cannot be empty''
                       else ''Each message must have role and content''))"
  using assms by (auto simp: validateMessages_def list_ex_iff)

lemma role_value_nonempty: "role_value r \<noteq> []"
  by (cases r) simp_all

lemma validateMessages_valid:
  "validateMessages msgs = Inr () \<longleftrightarrow> msgs \<noteq> [] \<and> (\<forall>m \<in> set msgs. \<not> no_content m)"
  by (auto simp: validateMessages_def list_ex_iff role_value_nonempty)

text \<open>With valid messages each method sends exactly one request.\<close>

lemma valid_messages_one_request:
  assumes "validateMessages msgs = Inr ()"
  shows "snd (OpenAILLM_chat parse fetch adapter msgs tools)
           = [openai_request adapter ''chat/completions'' (openai_data adapter msgs tools False)]"
    and "snd (OpenAILLM_stream parse fetch adapter msgs tools)
           = [openai_request adapter ''chat/completions'' (openai_data adapter msgs tools True)]"
    and "snd (AnthropicLLM_chat parse fetch add adapter msgs tools)
           = [anthropic_request adapter (anthropic_data adapter msgs tools False)]"
    and "snd (AnthropicLLM_stream parse fetch adapter msgs tools)
           = [anthropic_request adapter (anthropic_data adapter msgs tools True)]"
  using assms
  by (simp_all add: OpenAILLM_chat_def OpenAILLM_stream_def AnthropicLLM_chat_def
        AnthropicLLM_stream_def Let_def split: sum.split option.split)

text \<open>
  Claim C6, as amended: a call of \<^verbatim>\<open>chat\<close> or \<^verbatim>\<open>stream\<close> of either adapter with an empty
  message list, or with a message whose content is empty (the empty string, or no content
  at all), throws the validation error and sends no request. There is no exception for an assistant turn that only carries tool
  calls: its empty content is rejected like any other. (Every member of the role enum is a
  non-empty string, so a typed message never lacks a role.)
\<close>

theorem C6_invalid_messages_rejected_before_network:
  assumes "msgs = [] \<or> (\<exists>m \<in> set msgs. no_content m)"
  shows "\<exists>e. validateMessages msgs = Inl e
            \<and> OpenAILLM_chat parse fetch adapter msgs tools = (Inl e, [])
            \<and> OpenAILLM_stream parse fetch adapter msgs tools = (([], Some e), [])
            \<and> AnthropicLLM_chat parse fetch add adapter msgs tools = (Inl e, [])
            \<and> AnthropicLLM_stream parse fetch adapter msgs tools = (([], Some e), [])"
  using validateMessages_invalid [OF assms]
  by (simp add: OpenAILLM_chat_def OpenAILLM_stream_def AnthropicLLM_chat_def
        AnthropicLLM_stream_def)

theorem C6_invalid_messages_rejected_before_network_witness:
  "(\<exists>m \<in> set [user_message ''2+2?'', tool_call_only_turn]. no_content m)
   \<and> (\<exists>e. validateMessages [user_message ''2+2?'', tool_call_only_turn] = Inl e
          \<and> OpenAILLM_chat sample_parse offline sample_llm [user_message ''2+2?'', tool_call_only_turn] None
              = (Inl e, [])
          \<and> OpenAILLM_stream sample_parse offline sample_llm [user_message ''2+2?'', tool_call_only_turn] None
              = (([], Some e), [])
          \<and> AnthropicLLM_chat sample_parse offline no_add sample_llm
                [user_message ''2+2?'', tool_call_only_turn] None
              = (Inl e, [])
          \<and> AnthropicLLM_stream sample_parse offline sample_llm [user_message ''2+2?'', tool_call_only_turn] None
              = (([], Some e), []))"
proof -
  have empty: "\<exists>m \<in> set [user_message ''2+2?'', tool_call_only_turn]. no_content m"
    by (simp add: tool_call_only_turn_def assistant_message_def no_content_def)
  then have "[user_message ''2+2?'', tool_call_only_turn] = []
             \<or> (\<exists>m \<in> set [user_message ''2+2?'', tool_call_only_turn]. no_content m)"
    by (rule disjI2)
  from C6_invalid_messages_rejected_before_network [OF this] empty
  show ?thesis by (intro conjI)
qed

text \<open>The claim as it stands allows an empty content for a tool-call-only assistant turn;
  the validation refuses it.\<close>

theorem C6_tool_call_only_turn_rejected:
  "validateMessages [user_message ''2+2?'', tool_call_only_turn]
     = Inl (Error ''Each message must have role and content'')"
  by (simp add: validateMessages_def tool_call_only_turn_def assistant_message_def
        user_message_def no_content_def)

section \<open>Properties of the reading loop\<close>

lemma split_lines_nonempty: "split_lines s \<noteq> []"
  by (induction s) (auto split: list.split)

lemma split_lines_no_feed: "CHR 0x0A \<notin> set s \<Longrightarrow> split_lines s = [s]"
  by (induction s) auto

lemma split_lines_feed:
  "CHR 0x0A \<notin> set a \<Longrightarrow> split_lines (a @ CHR 0x0A # b) = a # split_lines b"
  by (induction a) auto

lemma last_split_lines_no_feed: "CHR 0x0A \<notin> set (last (split_lines s))"
  using split_lines_nonempty [of s]
  by (induction s) (auto split: list.split)

lemma split_lines_append:
  "split_lines (x @ y) = butlast (split_lines x) @ split_lines (last (split_lines x) @ y)"
proof (induction x)
  case Nil
  show ?case by simp
next
  case (Cons c x)
  show ?case
  proof (cases "c = CHR 0x0A")
    case True
    with Cons show ?thesis
      using split_lines_nonempty [of x] by simp
  next
    case False
    obtain l ls where x: "split_lines x = l # ls"
      using split_lines_nonempty [of x] by (cases "split_lines x") auto
    show ?thesis
    proof (cases ls)
      case Nil
      with x False Cons show ?thesis by simp
    next
      case (Cons l' ls')
      with x False Cons.IH show ?thesis by simp
    qed
  qed
qed

text \<open>However the body is cut into pieces, the loop processes the complete lines of the
  whole text, in order.\<close>

lemma read_loop_lines:
  "CHR 0x0A \<notin> set buffer \<Longrightarrow>
   read_loop process buffer pieces
     = concat (map process (butlast (split_lines (buffer @ concat pieces))))"
proof (induction pieces arbitrary: buffer)
  case Nil
  then show ?case by (simp add: split_lines_no_feed)
next
  case (Cons piece pieces)
  let ?lines = "split_lines (buffer @ piece)"
  have "read_loop process buffer (piece # pieces)
          = concat (map process (butlast ?lines)) @ read_loop process (last ?lines) pieces"
    by (simp add: Let_def)
  also have "read_loop process (last ?lines) pieces
          = concat (map process (butlast (split_lines (last ?lines @ concat pieces))))"
    by (rule Cons.IH) (rule last_split_lines_no_feed)
  also have "concat (map process (butlast ?lines))
               @ concat (map process (butlast (split_lines (last ?lines @ concat pieces))))
          = concat (map process (butlast (butlast ?lines @ split_lines (last ?lines @ concat pieces))))"
    by (simp add: butlast_append split_lines_nonempty)
  also have "butlast ?lines @ split_lines (last ?lines @ concat pieces)
          = split_lines ((buffer @ piece) @ concat pieces)"
    by (rule split_lines_append [symmetric])
  finally show ?case by simp
qed

lemma split_lines_lines_text:
  "\<forall>l \<in> set ls. CHR 0x0A \<notin> set l \<Longrightarrow> split_lines (lines_text ls) = ls @ [[]]"
  by (induction ls) (simp_all add: lines_text_def split_lines_feed)

lemma openai_line_done: "js_trim line = ''data: [DONE]'' \<Longrightarrow> openai_line parse line = []"
  by (simp add: openai_line_def)

text \<open>
  Claim C7, as amended: a complete line that is the done line yields no chunk, and the
  adapter goes on reading: the lines after it are processed like the lines before it. For
  a body whose text is the lines \<open>before\<close>, the done line and the lines \<open>after\<close>, cut into
  pieces in any way, the stream yields the chunks of \<open>before\<close> and then the chunks of
  \<open>after\<close>.
\<close>

theorem C7_done_line_skipped_reading_continues:
  assumes "validateMessages msgs = Inr ()"
    and "fetch (openai_request adapter ''chat/completions'' (openai_data adapter msgs tools True))
           = Inr resp"
    and "ok resp"
    and "body_reader resp = Some pieces"
    and "concat pieces = lines_text (before @ sentinel # after)"
    and "\<forall>l \<in> set (before @ sentinel # after). CHR 0x0A \<notin> set l"
    and "js_trim sentinel = ''data: [DONE]''"
  shows "fst (OpenAILLM_stream parse fetch adapter msgs tools)
           = (concat (map (openai_line parse) before) @ concat (map (openai_line parse) after), None)"
proof -
  have "read_loop (openai_line parse) [] pieces
          = concat (map (openai_line parse) (butlast (split_lines (concat pieces))))"
    using read_loop_lines [of "[]" "openai_line parse" pieces] by simp
  also have "split_lines (concat pieces) = (before @ sentinel # after) @ [[]]"
    unfolding assms(5) using assms(6) by (rule split_lines_lines_text)
  also have "concat (map (openai_line parse) (butlast ((before @ sentinel # after) @ [[]])))
          = concat (map (openai_line parse) before) @ concat (map (openai_line parse) after)"
    using assms(7) by (simp add: openai_line_done butlast_append)
  finally have "read_loop (openai_line parse) [] pieces
          = concat (map (openai_line parse) before) @ concat (map (openai_line parse) after)" .
  with assms(1-4) show ?thesis
    by (simp add: OpenAILLM_stream_def Let_def)
qed

lemma data_line_no_feed: "CHR 0x0A \<notin> set data_line"
  by (simp add: data_line_def sample_payload_def)

lemma sample_data_line: "openai_line sample_parse data_line = [content_chunk (JStr ''Hi'')]"
  by (simp add: openai_line_def js_trim_def is_space_def startsWith_def sample_payload_def
        data_line_def sample_parse_def nullish_def opt_first_def opt_get_def Let_def)

theorem C7_done_line_skipped_reading_continues_witness:
  "validateMessages [user_message ''hi''] = Inr ()
   \<and> concat [done_then_data] = lines_text ([] @ ''data: [DONE]'' # [data_line])
   \<and> js_trim ''data: [DONE]'' = ''data: [DONE]''
   \<and> fst (OpenAILLM_stream sample_parse (streaming [done_then_data]) sample_llm [user_message ''hi''] None)
       = ([content_chunk (JStr ''Hi'')], None)"
proof -
  have valid: "validateMessages [user_message ''hi''] = Inr ()"
    by (simp add: validateMessages_def user_message_def no_content_def)
  have body: "concat [done_then_data] = lines_text ([] @ ''data: [DONE]'' # [data_line])"
    by (simp add: done_then_data_def lines_text_def)
  have no_feed: "\<forall>l \<in> set ([] @ ''data: [DONE]'' # [data_line]). CHR 0x0A \<notin> set l"
    by (simp add: data_line_no_feed)
  have trimmed: "js_trim ''data: [DONE]'' = ''data: [DONE]''"
    by (simp add: js_trim_def is_space_def)
  have fetched: "streaming [done_then_data]
                   (openai_request sample_llm ''chat/completions''
                      (openai_data sample_llm [user_message ''hi''] None True))
                 = Inr \<lparr>ok = True, status = 200, body_text = [], body_reader = Some [done_then_data]\<rparr>"
    by (simp add: streaming_def)
  have "fst (OpenAILLM_stream sample_parse (streaming [done_then_data]) sample_llm
               [user_message ''hi''] None)
          = (concat (map (openai_line sample_parse) [])
               @ concat (map (openai_line sample_parse) [data_line]), None)"
  proof (rule C7_done_line_skipped_reading_continues
           [where sentinel = "''data: [DONE]''" and pieces = "[done_then_data]"
              and resp = "\<lparr>ok = True, status = 200, body_text = [],
                            body_reader = Some [done_then_data]\<rparr>"])
    show "validateMessages [user_message ''hi''] = Inr ()"
      by (rule valid)
    show "streaming [done_then_data]
            (openai_request sample_llm ''chat/completions''
               (openai_data sample_llm [user_message ''hi''] None True))
          = Inr \<lparr>ok = True, status = 200, body_text = [], body_reader = Some [done_then_data]\<rparr>"
      by (rule fetched)
    show "ok \<lparr>ok = True, status = 200, body_text = [], body_reader = Some [done_then_data]\<rparr>"
      by simp
    show "body_reader \<lparr>ok = True, status = 200, body_text = [],
                        body_reader = Some [done_then_data]\<rparr> = Some [done_then_data]"
      by simp
    show "concat [done_then_data] = lines_text ([] @ ''data: [DONE]'' # [data_line])"
      by (rule body)
    show "\<forall>l \<in> set ([] @ ''data: [DONE]'' # [data_line]). CHR 0x0A \<notin> set l"
      by (rule no_feed)
    show "js_trim ''data: [DONE]'' = ''data: [DONE]''"
      by (rule trimmed)
  qed
  with valid body trimmed show ?thesis
    by (simp add: sample_data_line)
qed

text \<open>The claim as it stands says that no chunk is emitted from a line after the done line;
  here one is.\<close>

theorem C7_chunk_after_done_line:
  "read_loop (openai_line sample_parse) [] [done_then_data] = [content_chunk (JStr ''Hi'')]"
proof -
  have "split_lines done_then_data = [''data: [DONE]'', data_line, []]"
    by (simp add: done_then_data_def split_lines_feed data_line_no_feed)
  moreover have "openai_line sample_parse ''data: [DONE]'' = []"
    by (simp add: openai_line_def js_trim_def is_space_def)
  ultimately show ?thesis
    by (simp add: sample_data_line)
qed

section \<open>Properties of the agent\<close>

lemma Agent_addMessage_fields [simp]:
  "memory (Agent_addMessage ag m) = SimpleDictMemory_addMessage (memory ag) m"
  "trace (Agent_addMessage ag m) = trace ag @ [AddMessage m]"
  "llm (Agent_addMessage ag m) = llm ag"
  "toolRegistry (Agent_addMessage ag m) = toolRegistry ag"
  "systemPrompt (Agent_addMessage ag m) = systemPrompt ag"
  "maxMemoryMessages (Agent_addMessage ag m) = maxMemoryMessages ag"
  "agent_id (Agent_addMessage ag m) = agent_id ag"
  "agent_name (Agent_addMessage ag m) = agent_name ag"
  by (simp_all add: Agent_addMessage_def)

lemma add_messages_fields:
  "trace (foldl Agent_addMessage ag ms) = trace ag @ map AddMessage ms"
  "memory (foldl Agent_addMessage ag ms) = SimpleDictMemory_addAll (memory ag) ms"
  "llm (foldl Agent_addMessage ag ms) = llm ag"
  "toolRegistry (foldl Agent_addMessage ag ms) = toolRegistry ag"
  "agent_id (foldl Agent_addMessage ag ms) = agent_id ag"
  "agent_name (foldl Agent_addMessage ag ms) = agent_name ag"
  "maxMemoryMessages (foldl Agent_addMessage ag ms) = maxMemoryMessages ag"
  by (induction ms arbitrary: ag) (simp_all add: SimpleDictMemory_addAll_def)

text \<open>When every call returns, all of them are executed, in order.\<close>

lemma executeToolCalls_runs_all:
  "tool_results (toolRegistry ag) calls = Inr results \<Longrightarrow>
   executeToolCalls ag calls = (Inr results, ag\<lparr>trace := trace ag @ map ExecuteTool calls\<rparr>)"
proof (induction calls arbitrary: ag results)
  case Nil
  then show ?case by simp
next
  case (Cons c calls)
  from Cons.prems obtain r rs where r: "executeTool (toolRegistry ag) c = Inr r"
    and rs: "tool_results (toolRegistry ag) calls = Inr rs" and res: "results = r # rs"
    by (auto split: sum.splits)
  let ?ag' = "ag\<lparr>trace := trace ag @ [ExecuteTool c]\<rparr>"
  from rs have "tool_results (toolRegistry ?ag') calls = Inr rs"
    by simp
  from Cons.IH [OF this] r res show ?case
    by (simp add: Let_def)
qed

text \<open>When a call throws, the loop ends with its error.\<close>

lemma executeToolCalls_throws:
  "tool_results (toolRegistry ag) calls = Inl e \<Longrightarrow> fst (executeToolCalls ag calls) = Inl e"
proof (induction calls arbitrary: ag)
  case Nil
  then show ?case by simp
next
  case (Cons c calls)
  let ?ag' = "ag\<lparr>trace := trace ag @ [ExecuteTool c]\<rparr>"
  show ?case
  proof (cases "executeTool (toolRegistry ag) c")
    case (Inl e')
    with Cons.prems show ?thesis by (simp add: Let_def)
  next
    case (Inr r)
    with Cons.prems have "tool_results (toolRegistry ?ag') calls = Inl e"
      by (simp split: sum.splits)
    from Cons.IH [OF this]
    obtain ag'' where "executeToolCalls ?ag' calls = (Inl e, ag'')"
      by (cases "executeToolCalls ?ag' calls") auto
    with Inr show ?thesis
      by (simp add: Let_def)
  qed
qed

lemma add_tool_messages_all:
  "tool_messages stringify results = Inr msgs \<Longrightarrow>
   add_tool_messages stringify ag results = (Inr (), foldl Agent_addMessage ag msgs)"
  by (induction results arbitrary: ag msgs) (auto split: sum.splits)

lemma add_tool_messages_throws:
  "tool_messages stringify results = Inl e \<Longrightarrow>
   fst (add_tool_messages stringify ag results) = Inl e"
  by (induction results arbitrary: ag) (auto split: sum.splits)

lemma resolve_tools_succeeds:
  assumes "tool_results (toolRegistry ag) calls = Inr results"
    and "tool_messages stringify results = Inr msgs"
  shows "resolve_tools stringify ag text calls
           = (Inr (), foldl Agent_addMessage (ag\<lparr>trace := trace ag @ map ExecuteTool calls\<rparr>)
                        (assistant_message text (Some calls) # msgs))"
  using assms by (simp add: resolve_tools_def executeToolCalls_runs_all add_tool_messages_all)

text \<open>When a call throws, or \<^verbatim>\<open>JSON.stringify\<close> throws on a result, the tool round throws.\<close>

lemma resolve_tools_throws:
  assumes "tool_results (toolRegistry ag) calls = Inl e
           \<or> (\<exists>results. tool_results (toolRegistry ag) calls = Inr results
                        \<and> tool_messages stringify results = Inl e)"
  shows "fst (resolve_tools stringify ag text calls) = Inl e"
  using assms
proof
  assume "tool_results (toolRegistry ag) calls = Inl e"
  from executeToolCalls_throws [OF this]
  obtain ag3 where "executeToolCalls ag calls = (Inl e, ag3)"
    by (cases "executeToolCalls ag calls") auto
  then show ?thesis
    by (simp add: resolve_tools_def)
next
  assume "\<exists>results. tool_results (toolRegistry ag) calls = Inr results
                     \<and> tool_messages stringify results = Inl e"
  then obtain results where "tool_results (toolRegistry ag) calls = Inr results"
    and "tool_messages stringify results = Inl e"
    by blast
  then show ?thesis
    by (simp add: resolve_tools_def executeToolCalls_runs_all add_tool_messages_throws)
qed

lemma trace_readers_append [simp]:
  "added_messages (es @ fs) = added_messages es @ added_messages fs"
  "executed_tools (es @ fs) = executed_tools es @ executed_tools fs"
  "llm_requests (es @ fs) = llm_requests es @ llm_requests fs"
  by (induction es rule: added_messages.induct) simp_all

lemma trace_readers_executed [simp]:
  "added_messages (map ExecuteTool cs) = []"
  "executed_tools (map ExecuteTool cs) = cs"
  "llm_requests (map ExecuteTool cs) = []"
  by (induction cs) simp_all

lemma trace_readers_added [simp]:
  "added_messages (map AddMessage ms) = ms"
  "executed_tools (map AddMessage ms) = []"
  "llm_requests (map AddMessage ms) = []"
  by (induction ms) simp_all

text \<open>The tool round makes no request to the LLM.\<close>

lemma executeToolCalls_no_request:
  "llm_requests (trace (snd (executeToolCalls ag calls))) = llm_requests (trace ag)"
proof (induction calls arbitrary: ag)
  case Nil
  show ?case by simp
next
  case (Cons c calls)
  let ?ag' = "ag\<lparr>trace := trace ag @ [ExecuteTool c]\<rparr>"
  obtain x ag'' where rest: "executeToolCalls ?ag' calls = (x, ag'')"
    by (cases "executeToolCalls ?ag' calls")
  with Cons.IH [of ?ag'] have "llm_requests (trace ag'') = llm_requests (trace ag)"
    by simp
  with rest show ?case
    by (cases x; cases "executeTool (toolRegistry ag) c") (simp_all add: Let_def)
qed

lemma add_tool_messages_no_request:
  "llm_requests (trace (snd (add_tool_messages stringify ag rs))) = llm_requests (trace ag)"
  by (induction rs arbitrary: ag) (simp_all split: sum.split)

lemma resolve_tools_no_request:
  "llm_requests (trace (snd (resolve_tools stringify ag text calls))) = llm_requests (trace ag)"
proof (cases "executeToolCalls ag calls")
  case (Pair x ag3)
  with executeToolCalls_no_request [of ag calls]
  have "llm_requests (trace ag3) = llm_requests (trace ag)"
    by simp
  with Pair show ?thesis
    by (cases x) (simp_all add: resolve_tools_def add_tool_messages_no_request)
qed



lemma tool_message_fields:
  "tool_message stringify r = Inr m \<Longrightarrow> role m = Tool \<and> toolCallId m = Some (result_callId r)"
  by (auto simp: tool_message_def tool_message_of_def split: if_splits option.splits sum.splits)

lemma tool_messages_fields:
  "tool_messages stringify results = Inr msgs \<Longrightarrow>
   map toolCallId msgs = map (\<lambda>r. Some (result_callId r)) results
     \<and> list_all (\<lambda>m. role m = Tool) msgs"
  by (induction results arbitrary: msgs) (auto split: sum.splits dest: tool_message_fields)


lemma Agent_chat_unparsed_calls:
  assumes "chat (llm ag) (fst (first_request ag userMessage)) (snd (first_request ag userMessage))
             = (Inr r1, l1)"
    and "response_toolCalls r1 = Some calls" and "calls \<noteq> []"
    and "convertToolCalls parse calls = Inl e"
  shows "Agent_chat parse stringify chat ag userMessage
           = (Inl e, (Agent_addMessage ag (user_message userMessage))
                       \<lparr>llm := l1,
                        trace := trace ag @ [AddMessage (user_message userMessage),
                                             LlmChat (fst (first_request ag userMessage))
                                                     (snd (first_request ag userMessage))]\<rparr>)"
  using assms
  by (cases calls) (simp_all add: Agent_chat_def Let_def call_llm_def chat_with_tools_def)

text \<open>When the tool round throws, \<^verbatim>\<open>chat\<close> throws the same error and the first request stays
  the only one.\<close>

lemma Agent_chat_tool_round_throws:
  assumes "chat (llm ag) (fst (first_request ag userMessage)) (snd (first_request ag userMessage))
             = (Inr r1, l1)"
    and "response_toolCalls r1 = Some calls" and "calls \<noteq> []"
    and "convertToolCalls parse calls = Inr converted"
    and "tool_results (toolRegistry ag) converted = Inl e
         \<or> (\<exists>results. tool_results (toolRegistry ag) converted = Inr results
                      \<and> tool_messages stringify results = Inl e)"
  shows "fst (Agent_chat parse stringify chat ag userMessage) = Inl e"
    and "llm_requests (trace (snd (Agent_chat parse stringify chat ag userMessage)))
           = llm_requests (trace ag)
             @ [(fst (first_request ag userMessage), snd (first_request ag userMessage))]"
proof -
  obtain c cs where calls: "calls = c # cs"
    using assms(3) by (cases calls) auto
  let ?ag2 = "(Agent_addMessage ag (user_message userMessage))
                \<lparr>llm := l1,
                 trace := trace ag @ [AddMessage (user_message userMessage),
                                      LlmChat (fst (first_request ag userMessage))
                                              (snd (first_request ag userMessage))]\<rparr>"
  obtain x ag5 where round: "resolve_tools stringify ?ag2 (response_content r1) converted = (x, ag5)"
    by (cases "resolve_tools stringify ?ag2 (response_content r1) converted")
  from assms(5) have "tool_results (toolRegistry ?ag2) converted = Inl e
         \<or> (\<exists>results. tool_results (toolRegistry ?ag2) converted = Inr results
                      \<and> tool_messages stringify results = Inl e)"
    by simp
  from resolve_tools_throws [OF this, of "response_content r1"] round
  have x: "x = Inl e"
    by simp
  from resolve_tools_no_request [of stringify ?ag2 "response_content r1" converted] round
  have requests: "llm_requests (trace ag5)
                    = llm_requests (trace ag)
                      @ [(fst (first_request ag userMessage), snd (first_request ag userMessage))]"
    by simp
  have run: "Agent_chat parse stringify chat ag userMessage = (Inl e, ag5)"
    using assms(1,2,4) calls round x
    by (simp add: Agent_chat_def Let_def call_llm_def chat_with_tools_def)
  show "fst (Agent_chat parse stringify chat ag userMessage) = Inl e"
    by (simp add: run)
  show "llm_requests (trace (snd (Agent_chat parse stringify chat ag userMessage)))
           = llm_requests (trace ag)
             @ [(fst (first_request ag userMessage), snd (first_request ag userMessage))]"
    by (simp add: run requests)
qed

lemma before_followup_fields:
  assumes "tool_results (toolRegistry ag) converted = Inr results"
    and "tool_messages stringify results = Inr msgs"
  shows "trace (before_followup stringify ag userMessage l1 r1 converted)
     = trace ag
       @ [AddMessage (user_message userMessage),
          LlmChat (fst (first_request ag userMessage)) (snd (first_request ag userMessage))]
       @ map ExecuteTool converted
       @ [AddMessage (assistant_message (response_content r1) (Some converted))]
       @ map AddMessage msgs"
  and "memory (before_followup stringify ag userMessage l1 r1 converted)
     = SimpleDictMemory_addAll (memory ag)
         (user_message userMessage
            # assistant_message (response_content r1) (Some converted) # msgs)"
  and "llm (before_followup stringify ag userMessage l1 r1 converted) = l1"
  and "maxMemoryMessages (before_followup stringify ag userMessage l1 r1 converted)
     = maxMemoryMessages ag"
proof -
  let ?ag2 = "(Agent_addMessage ag (user_message userMessage))
                \<lparr>llm := l1,
                 trace := trace ag @ [AddMessage (user_message userMessage),
                                      LlmChat (fst (first_request ag userMessage))
                                              (snd (first_request ag userMessage))]\<rparr>"
  from assms(1) have "tool_results (toolRegistry ?ag2) converted = Inr results"
    by simp
  note round = resolve_tools_succeeds [OF this assms(2), of "response_content r1"]
  show "trace (before_followup stringify ag userMessage l1 r1 converted)
     = trace ag
       @ [AddMessage (user_message userMessage),
          LlmChat (fst (first_request ag userMessage)) (snd (first_request ag userMessage))]
       @ map ExecuteTool converted
       @ [AddMessage (assistant_message (response_content r1) (Some converted))]
       @ map AddMessage msgs"
    by (simp add: before_followup_def round add_messages_fields)
  show "memory (before_followup stringify ag userMessage l1 r1 converted)
     = SimpleDictMemory_addAll (memory ag)
         (user_message userMessage
            # assistant_message (response_content r1) (Some converted) # msgs)"
    by (simp add: before_followup_def round add_messages_fields SimpleDictMemory_addAll_def)
  show "llm (before_followup stringify ag userMessage l1 r1 converted) = l1"
    by (simp add: before_followup_def round add_messages_fields)
  show "maxMemoryMessages (before_followup stringify ag userMessage l1 r1 converted)
     = maxMemoryMessages ag"
    by (simp add: before_followup_def round add_messages_fields)
qed

lemma Agent_chat_with_calls:
  assumes "chat (llm ag) (fst (first_request ag userMessage)) (snd (first_request ag userMessage))
             = (Inr r1, l1)"
    and "response_toolCalls r1 = Some calls" and "calls \<noteq> []"
    and "convertToolCalls parse calls = Inr converted"
    and "tool_results (toolRegistry ag) converted = Inr results"
    and "tool_messages stringify results = Inr msgs"
  shows "Agent_chat parse stringify chat ag userMessage
           = followup parse chat (before_followup stringify ag userMessage l1 r1 converted) r1 converted"
proof -
  obtain c cs where calls: "calls = c # cs"
    using assms(3) by (cases calls) auto
  let ?ag2 = "(Agent_addMessage ag (user_message userMessage))
                \<lparr>llm := l1,
                 trace := trace ag @ [AddMessage (user_message userMessage),
                                      LlmChat (fst (first_request ag userMessage))
                                              (snd (first_request ag userMessage))]\<rparr>"
  from assms(5) have "tool_results (toolRegistry ?ag2) converted = Inr results"
    by simp
  from resolve_tools_succeeds [OF this assms(6), of "response_content r1"]
  have "resolve_tools stringify ?ag2 (response_content r1) converted
          = (Inr (), before_followup stringify ag userMessage l1 r1 converted)"
    by (simp add: before_followup_def)
  with assms(1,2,4) calls show ?thesis
    by (simp add: Agent_chat_def Let_def call_llm_def chat_with_tools_def)
qed

text \<open>The follow-up makes one request, with the history as it is and no tools, and adds at
  most the final assistant message; it never touches the tools.\<close>

lemma followup_trace:
  "trace (snd (followup parse chat ag r1 converted))
     = trace ag @ [LlmChat (Agent_getMessages ag) None]
       @ (case fst (followup parse chat ag r1 converted) of
            Inl e \<Rightarrow> []
          | Inr resp \<Rightarrow> [AddMessage (assistant_message (final_content resp) None)])"
  by (simp add: followup_def call_llm_def finish_chat_def Let_def
        split: prod.split sum.split option.split)


lemma followup_succeeds:
  "chat (llm ag) (Agent_getMessages ag) None = (Inr r2, l2) \<Longrightarrow>
   (case response_toolCalls r2 of None \<Rightarrow> Inr [] | Some fcalls \<Rightarrow> convertToolCalls parse fcalls)
     = Inr fconverted \<Longrightarrow>
   \<exists>resp. fst (followup parse chat ag r1 converted) = Inr resp
         \<and> all_toolCalls resp = converted @ fconverted
         \<and> final_content resp = response_content r2"
  by (simp add: followup_def call_llm_def finish_chat_def Let_def)



text \<open>What \<^verbatim>\<open>chat\<close> does, in order, when the first response carries tool calls and the tool
  round does not throw.\<close>

lemma Agent_chat_with_calls_trace:
  assumes "chat (llm ag) (fst (first_request ag userMessage)) (snd (first_request ag userMessage))
             = (Inr r1, l1)"
    and "response_toolCalls r1 = Some calls" and "calls \<noteq> []"
    and "convertToolCalls parse calls = Inr converted"
    and "tool_results (toolRegistry ag) converted = Inr results"
    and "tool_messages stringify results = Inr msgs"
  shows "trace (snd (Agent_chat parse stringify chat ag userMessage))
           = trace ag
             @ [AddMessage (user_message userMessage),
                LlmChat (fst (first_request ag userMessage)) (snd (first_request ag userMessage))]
             @ map ExecuteTool converted
             @ [AddMessage (assistant_message (response_content r1) (Some converted))]
             @ map AddMessage msgs
             @ [LlmChat (Agent_getMessages
                           (before_followup stringify ag userMessage l1 r1 converted)) None]
             @ (case fst (Agent_chat parse stringify chat ag userMessage) of
                  Inl e \<Rightarrow> []
                | Inr resp \<Rightarrow> [AddMessage (assistant_message (final_content resp) None)])"
proof -
  have "Agent_chat parse stringify chat ag userMessage
          = followup parse chat (before_followup stringify ag userMessage l1 r1 converted) r1 converted"
    using assms by (rule Agent_chat_with_calls [where chat = chat and calls = calls])
  then show ?thesis
    by (simp only: followup_trace before_followup_fields [OF assms(5,6)] append_assoc)
qed

text \<open>The sample agents, and the tool round of the sample exchange.\<close>

lemma sample_agent_fields:
  "llm sample_agent = 0"
  "memory sample_agent = \<lparr>messages = [], maxMessages = 1000\<rparr>"
  "toolRegistry sample_agent = [(''get_weather'', weather_tool)]"
  "systemPrompt sample_agent = ''You are a helpful AI assistant.''"
  "maxMemoryMessages sample_agent = 50"
  "trace sample_agent = []"
  by (simp_all add: sample_agent_def new_Agent_def new_SimpleDictMemory_def registerTool_def
        or_default_def weather_tool_def sample_tool_def)


lemma throwing_agent_fields:
  "llm throwing_agent = 0"
  "memory throwing_agent = \<lparr>messages = [], maxMessages = 1000\<rparr>"
  "toolRegistry throwing_agent
     = [(''get_weather'', sample_tool ''get_weather'' (Throws 0 bare_object))]"
  "systemPrompt throwing_agent = ''You are a helpful AI assistant.''"
  "maxMemoryMessages throwing_agent = 50"
  "trace throwing_agent = []"
  by (simp_all add: throwing_agent_def new_Agent_def new_SimpleDictMemory_def registerTool_def
        or_default_def sample_tool_def)

lemma sample_converted:
  "convertToolCalls sample_parse [llm_call ''{}'']
     = Inr [\<lparr>name = ''get_weather'', arguments = JObj [], callId = ''call_1''\<rparr>]"
  by (simp add: llm_call_def sample_parse_def sample_payload_def)

lemma sample_tool_results:
  "tool_results [(''get_weather'', weather_tool)]
     [\<lparr>name = ''get_weather'', arguments = JObj [], callId = ''call_1''\<rparr>]
   = Inr [\<lparr>result_callId = ''call_1'', result = Some (JStr ''Sunny''), error = None,
           executionTime = 20\<rparr>]"
  by (simp add: executeTool_def getTool_def weather_tool_def sample_tool_def timer_ms_def)

lemma sample_tool_messages:
  "tool_messages sample_stringify
     [\<lparr>result_callId = ''call_1'', result = Some (JStr ''Sunny''), error = None,
       executionTime = 20\<rparr>]
   = Inr [\<lparr>role = Tool, content = Some ([CHR 0x22] @ ''Sunny'' @ [CHR 0x22]), toolCalls = None,
           toolCallId = Some ''call_1''\<rparr>]"
  by (simp add: tool_message_def tool_message_of_def sample_stringify_def)

lemma throwing_tool_results:
  "tool_results [(''get_weather'', sample_tool ''get_weather'' (Throws 0 bare_object))]
     [\<lparr>name = ''get_weather'', arguments = JObj [], callId = ''call_1''\<rparr>]
   = Inl (Error ''Cannot convert object to primitive value'')"
  by (simp add: executeTool_def getTool_def sample_tool_def conversion_error_def bare_object_def)

lemma sample_first_request:
  "fst (first_request sample_agent ''Weather?'')
     = [system_message ''You are a helpful AI assistant.'', user_message ''Weather?'']"
  "snd (first_request sample_agent ''Weather?'') = Some (getOpenAITools [(''get_weather'', weather_tool)])"
  by (simp_all add: first_request_def Let_def sample_agent_fields Agent_getMessages_def
        SimpleDictMemory_getMessages_def SimpleDictMemory_addMessage_def with_system_prompt_def
        user_message_def getOpenAITools_def)

lemma sample_followup_history:
  "Agent_getMessages
     (before_followup sample_stringify sample_agent ''Weather?'' l1
        \<lparr>response_content = ''Checking'', usage = None, response_toolCalls = calls\<rparr>
        [\<lparr>name = ''get_weather'', arguments = JObj [], callId = ''call_1''\<rparr>])
   = [user_message ''Weather?'',
      assistant_message ''Checking''
        (Some [\<lparr>name = ''get_weather'', arguments = JObj [], callId = ''call_1''\<rparr>]),
      \<lparr>role = Tool, content = Some ([CHR 0x22] @ ''Sunny'' @ [CHR 0x22]), toolCalls = None,
        toolCallId = Some ''call_1''\<rparr>]"
proof -
  have results: "tool_results (toolRegistry sample_agent)
                   [\<lparr>name = ''get_weather'', arguments = JObj [], callId = ''call_1''\<rparr>]
                 = Inr [\<lparr>result_callId = ''call_1'', result = Some (JStr ''Sunny''), error = None,
                         executionTime = 20\<rparr>]"
    by (simp only: sample_agent_fields sample_tool_results)
  show ?thesis
    by (simp add: Agent_getMessages_def before_followup_fields [OF results sample_tool_messages]
          sample_agent_fields SimpleDictMemory_getMessages_def
          SimpleDictMemory_addAll_def SimpleDictMemory_addMessage_def)
qed








text \<open>
  Claim C3, as amended: when the first response carries tool calls, each with a \<^verbatim>\<open>function\<close>
  and an argument text that parses as JSON, and the tool round does not throw, exactly one
  follow-up request is made (with the history as it then is and no tools), and only the
  calls of the first response are executed. If the follow-up response carries tool calls too
  and they convert, they are appended to the \<open>toolCalls\<close> of the result, and none of them
  is executed.
\<close>

theorem C3_one_followup_calls_recorded_not_executed:
  assumes "chat (llm ag) (fst (first_request ag userMessage)) (snd (first_request ag userMessage))
             = (Inr r1, l1)"
    and "response_toolCalls r1 = Some calls" and "calls \<noteq> []"
    and "convertToolCalls parse calls = Inr converted"
    and "tool_results (toolRegistry ag) converted = Inr results"
    and "tool_messages stringify results = Inr msgs"
  shows "llm_requests (trace (snd (Agent_chat parse stringify chat ag userMessage)))
           = llm_requests (trace ag)
             @ [(fst (first_request ag userMessage), snd (first_request ag userMessage)),
                (Agent_getMessages (before_followup stringify ag userMessage l1 r1 converted), None)]
       \<and> executed_tools (trace (snd (Agent_chat parse stringify chat ag userMessage)))
           = executed_tools (trace ag) @ converted
       \<and> (\<forall>r2 l2 fcalls fconverted.
             chat l1 (Agent_getMessages (before_followup stringify ag userMessage l1 r1 converted)) None
               = (Inr r2, l2)
             \<and> response_toolCalls r2 = Some fcalls
             \<and> convertToolCalls parse fcalls = Inr fconverted \<longrightarrow>
             (\<exists>resp. fst (Agent_chat parse stringify chat ag userMessage) = Inr resp
                    \<and> all_toolCalls resp = converted @ fconverted
                    \<and> final_content resp = response_content r2))"
proof (intro conjI allI impI)
  note shape = Agent_chat_with_calls_trace
                 [where chat = chat and parse = parse and stringify = stringify, OF assms]
  show "llm_requests (trace (snd (Agent_chat parse stringify chat ag userMessage)))
           = llm_requests (trace ag)
             @ [(fst (first_request ag userMessage), snd (first_request ag userMessage)),
                (Agent_getMessages (before_followup stringify ag userMessage l1 r1 converted), None)]"
    unfolding shape by (simp split: sum.split)
  show "executed_tools (trace (snd (Agent_chat parse stringify chat ag userMessage)))
           = executed_tools (trace ag) @ converted"
    unfolding shape by (simp split: sum.split)
next
  fix r2 l2 fcalls fconverted
  let ?ag5 = "before_followup stringify ag userMessage l1 r1 converted"
  assume a: "chat l1 (Agent_getMessages ?ag5) None = (Inr r2, l2)
             \<and> response_toolCalls r2 = Some fcalls
             \<and> convertToolCalls parse fcalls = Inr fconverted"
  have chat_eq: "Agent_chat parse stringify chat ag userMessage
                   = followup parse chat ?ag5 r1 converted"
    using assms by (rule Agent_chat_with_calls [where chat = chat and calls = calls])
  from a have "chat (llm ?ag5) (Agent_getMessages ?ag5) None = (Inr r2, l2)"
    by (simp add: before_followup_fields [OF assms(5,6)])
  moreover from a have "(case response_toolCalls r2 of None \<Rightarrow> Inr []
                         | Some fcalls \<Rightarrow> convertToolCalls parse fcalls) = Inr fconverted"
    by simp
  ultimately show "\<exists>resp. fst (Agent_chat parse stringify chat ag userMessage) = Inr resp
                    \<and> all_toolCalls resp = converted @ fconverted
                    \<and> final_content resp = response_content r2"
    unfolding chat_eq
    by (rule followup_succeeds [where chat = chat and parse = parse])
qed

theorem C3_one_followup_calls_recorded_not_executed_witness:
  "length (llm_requests
             (trace (snd (Agent_chat sample_parse sample_stringify asks_always sample_agent
                            ''Weather?'')))) = 2
   \<and> executed_tools
        (trace (snd (Agent_chat sample_parse sample_stringify asks_always sample_agent ''Weather?'')))
       = [\<lparr>name = ''get_weather'', arguments = JObj [], callId = ''call_1''\<rparr>]
   \<and> (\<exists>resp. fst (Agent_chat sample_parse sample_stringify asks_always sample_agent ''Weather?'')
                 = Inr resp
             \<and> all_toolCalls resp
                 = [\<lparr>name = ''get_weather'', arguments = JObj [], callId = ''call_1''\<rparr>,
                    \<lparr>name = ''get_weather'', arguments = JObj [], callId = ''call_1''\<rparr>])"
proof -
  let ?r = "\<lparr>response_content = ''Checking'', usage = None,
              response_toolCalls = Some [llm_call ''{}'']\<rparr>"
  let ?conv = "[\<lparr>name = ''get_weather'', arguments = JObj [], callId = ''call_1''\<rparr>]"
  let ?results = "[\<lparr>result_callId = ''call_1'', result = Some (JStr ''Sunny''), error = None,
                    executionTime = 20\<rparr>]"
  let ?run = "Agent_chat sample_parse sample_stringify asks_always sample_agent ''Weather?''"
  let ?ag5 = "before_followup sample_stringify sample_agent ''Weather?'' 1 ?r ?conv"
  have first: "asks_always (llm sample_agent) (fst (first_request sample_agent ''Weather?''))
                 (snd (first_request sample_agent ''Weather?'')) = (Inr ?r, 1)"
    by (simp add: asks_always_def sample_agent_fields)
  have calls: "response_toolCalls ?r = Some [llm_call ''{}'']"
    by simp
  have some: "[llm_call ''{}''] \<noteq> []"
    by simp
  have results: "tool_results (toolRegistry sample_agent) ?conv = Inr ?results"
    by (simp only: sample_agent_fields sample_tool_results)
  note c3 = C3_one_followup_calls_recorded_not_executed
              [where chat = asks_always and parse = sample_parse and stringify = sample_stringify,
               OF first calls some sample_converted results sample_tool_messages]
  have second: "asks_always 1 (Agent_getMessages ?ag5) None = (Inr ?r, 2)
                \<and> response_toolCalls ?r = Some [llm_call ''{}'']
                \<and> convertToolCalls sample_parse [llm_call ''{}''] = Inr ?conv"
    by (simp add: asks_always_def sample_converted del: convertToolCalls.simps)
  from c3 have "llm_requests (trace (snd ?run))
                  = llm_requests (trace sample_agent)
                    @ [(fst (first_request sample_agent ''Weather?''),
                        snd (first_request sample_agent ''Weather?'')),
                       (Agent_getMessages ?ag5, None)]"
    by (rule conjunct1)
  then have requests: "length (llm_requests (trace (snd ?run))) = 2"
    by (simp add: sample_agent_fields)
  from c3 have "executed_tools (trace (snd ?run)) = executed_tools (trace sample_agent) @ ?conv"
    by blast
  then have tools: "executed_tools (trace (snd ?run)) = ?conv"
    by (simp add: sample_agent_fields)
  from c3 second have "\<exists>resp. fst ?run = Inr resp \<and> all_toolCalls resp = ?conv @ ?conv
                         \<and> final_content resp = response_content ?r"
    by blast
  then have recorded: "\<exists>resp. fst ?run = Inr resp \<and> all_toolCalls resp = ?conv @ ?conv"
    by blast
  from requests tools recorded show ?thesis by simp
qed

text \<open>The claim as it stands promises a follow-up request for every first response that asks
  for tools. When an argument text does not parse, \<^verbatim>\<open>chat\<close> throws before the follow-up: the
  first request stays the only one. The same holds when a tool's handler throws a value
  without a string form.\<close>

theorem C3_unparsed_call_no_followup:
  "llm_requests
     (trace (snd (Agent_chat sample_parse sample_stringify (asks_tool []) sample_agent ''Weather?'')))
   = [([system_message ''You are a helpful AI assistant.'', user_message ''Weather?''],
       Some (getOpenAITools [(''get_weather'', weather_tool)]))]
   \<and> length (llm_requests
               (trace (snd (Agent_chat sample_parse sample_stringify (asks_tool ''{}'') throwing_agent
                              ''Weather?'')))) = 1"
proof -
  let ?r1 = "\<lparr>response_content = ''Checking'', usage = None,
               response_toolCalls = Some [llm_call []]\<rparr>"
  let ?r2 = "\<lparr>response_content = ''Checking'', usage = None,
               response_toolCalls = Some [llm_call ''{}'']\<rparr>"
  let ?conv = "[\<lparr>name = ''get_weather'', arguments = JObj [], callId = ''call_1''\<rparr>]"
  have first: "asks_tool [] (llm sample_agent) (fst (first_request sample_agent ''Weather?''))
                 (snd (first_request sample_agent ''Weather?'')) = (Inr ?r1, 1)"
    by (simp add: asks_tool_def sample_agent_fields)
  have unparsed: "convertToolCalls sample_parse [llm_call []] = Inl (Error ''SyntaxError'')"
    by (simp add: llm_call_def sample_parse_def sample_payload_def)
  have part1: "llm_requests
     (trace (snd (Agent_chat sample_parse sample_stringify (asks_tool []) sample_agent ''Weather?'')))
   = [([system_message ''You are a helpful AI assistant.'', user_message ''Weather?''],
       Some (getOpenAITools [(''get_weather'', weather_tool)]))]"
    using Agent_chat_unparsed_calls
            [where chat = "asks_tool []" and parse = sample_parse and stringify = sample_stringify
               and calls = "[llm_call []]", OF first _ _ unparsed]
    by (simp add: sample_agent_fields sample_first_request)
  have first2: "asks_tool ''{}'' (llm throwing_agent) (fst (first_request throwing_agent ''Weather?''))
                 (snd (first_request throwing_agent ''Weather?'')) = (Inr ?r2, 1)"
    by (simp add: asks_tool_def throwing_agent_fields)
  have calls: "response_toolCalls ?r2 = Some [llm_call ''{}'']"
    by simp
  have some: "[llm_call ''{}''] \<noteq> []"
    by simp
  have throws: "tool_results (toolRegistry throwing_agent) ?conv
                  = Inl (Error ''Cannot convert object to primitive value'')
                \<or> (\<exists>results. tool_results (toolRegistry throwing_agent) ?conv = Inr results
                       \<and> tool_messages sample_stringify results
                           = Inl (Error ''Cannot convert object to primitive value''))"
    by (simp add: throwing_agent_fields throwing_tool_results del: tool_results.simps)
  have part2: "length (llm_requests
               (trace (snd (Agent_chat sample_parse sample_stringify (asks_tool ''{}'') throwing_agent
                              ''Weather?'')))) = 1"
    using Agent_chat_tool_round_throws(2)
            [where chat = "asks_tool ''{}''" and parse = sample_parse and stringify = sample_stringify,
             OF first2 calls some sample_converted throws]
    by (simp add: throwing_agent_fields)
  from part1 part2 show ?thesis by (intro conjI)
qed

text \<open>
  The first request of \<^verbatim>\<open>chat\<close> (and the request of \<^verbatim>\<open>stream\<close>): when the history holds no
  system message, the messages sent are the system prompt followed by the history, so they
  hold exactly one system message, and it comes first.
\<close>

lemma first_request_system_prompt:
  assumes "\<not> list_ex (\<lambda>m. role m = System)
               (Agent_getMessages (Agent_addMessage ag (user_message userMessage)))"
  shows "fst (first_request ag userMessage)
           = system_message (systemPrompt ag)
             # Agent_getMessages (Agent_addMessage ag (user_message userMessage))"
    and "length (filter (\<lambda>m. role m = System) (fst (first_request ag userMessage))) = 1"
    and "role (hd (fst (first_request ag userMessage))) = System"
proof -
  show eq: "fst (first_request ag userMessage)
           = system_message (systemPrompt ag)
             # Agent_getMessages (Agent_addMessage ag (user_message userMessage))"
    using assms by (simp add: first_request_def Let_def with_system_prompt_def)
  have "filter (\<lambda>m. role m = System)
          (Agent_getMessages (Agent_addMessage ag (user_message userMessage))) = []"
    using assms by (simp add: list_ex_iff filter_empty_conv)
  then show "length (filter (\<lambda>m. role m = System) (fst (first_request ag userMessage))) = 1"
    by (simp add: eq system_message_def)
  show "role (hd (fst (first_request ag userMessage))) = System"
    by (simp add: eq system_message_def)
qed

text \<open>
  The follow-up request is the history as \<^verbatim>\<open>getMessages()\<close> returns it; nothing is put in
  front of it. The history is made of stored messages only, and the exchange stores a user
  message, an assistant message and tool messages: when the memory held no system message
  before the exchange, the follow-up request holds none.
\<close>

lemma js_slice_subset: "set (js_slice k xs) \<subseteq> set xs"
  by (simp add: js_slice_def Let_def set_drop_subset)

lemma SimpleDictMemory_addMessage_subset:
  "set (messages (SimpleDictMemory_addMessage mem m)) \<subseteq> insert m (set (messages mem))"
proof -
  have "set (js_slice k (messages mem @ [m])) \<subseteq> insert m (set (messages mem))" for k
    using js_slice_subset [of k "messages mem @ [m]"] by auto
  then show ?thesis
    by (auto simp: SimpleDictMemory_addMessage_def Let_def)
qed

lemma SimpleDictMemory_addAll_subset:
  "set (messages (SimpleDictMemory_addAll mem ms)) \<subseteq> set (messages mem) \<union> set ms"
proof (induction ms rule: rev_induct)
  case Nil
  show ?case by (simp add: SimpleDictMemory_addAll_def)
next
  case (snoc m ms)
  show ?case
    using snoc SimpleDictMemory_addMessage_subset [of "SimpleDictMemory_addAll mem ms" m]
    by (auto simp: SimpleDictMemory_addAll_snoc)
qed

lemma Agent_getMessages_subset: "set (Agent_getMessages ag) \<subseteq> set (messages (memory ag))"
proof -
  have "set (js_slice k (filter P (messages (memory ag)))) \<subseteq> set (messages (memory ag))" for k P
    using js_slice_subset [of k "filter P (messages (memory ag))"] by auto
  then show ?thesis
    by (auto simp: Agent_getMessages_def SimpleDictMemory_getMessages_def Let_def)
qed

lemma followup_request_has_no_system_message:
  assumes "\<forall>m \<in> set (messages (memory ag)). role m \<noteq> System"
    and "tool_results (toolRegistry ag) converted = Inr results"
    and "tool_messages stringify results = Inr msgs"
  shows "\<forall>m \<in> set (Agent_getMessages (before_followup stringify ag userMessage l1 r1 converted)).
           role m \<noteq> System"
proof
  fix m
  let ?added = "user_message userMessage
                  # assistant_message (response_content r1) (Some converted) # msgs"
  assume "m \<in> set (Agent_getMessages (before_followup stringify ag userMessage l1 r1 converted))"
  then have "m \<in> set (messages (SimpleDictMemory_addAll (memory ag) ?added))"
    using Agent_getMessages_subset [of "before_followup stringify ag userMessage l1 r1 converted"]
    by (auto simp only: before_followup_fields [OF assms(2,3)])
  then have "m \<in> set (messages (memory ag)) \<or> m \<in> set ?added"
    using SimpleDictMemory_addAll_subset [of "memory ag" ?added] by auto
  moreover have "\<forall>a \<in> set msgs. role a = Tool"
    using tool_messages_fields [OF assms(3)] by (simp add: list_all_iff)
  then have "\<forall>a \<in> set ?added. role a \<noteq> System"
    by (auto simp: user_message_def assistant_message_def)
  ultimately show "role m \<noteq> System"
    using assms(1) by blast
qed

text \<open>
  Claim C1 (for a history that is not empty and holds no system message, the message list
  passed to the provider holds exactly one system message, and it comes first): it holds for
  the first request and fails for the follow-up request of the same \<^verbatim>\<open>chat\<close>. In this
  exchange the memory never holds a system message; the first request starts with the
  system prompt, the follow-up request has none.
\<close>

theorem C1_followup_request_without_system_message:
  "map (\<lambda>request. map role (fst request))
     (llm_requests
        (trace (snd (Agent_chat sample_parse sample_stringify (asks_tool ''{}'') sample_agent
                       ''Weather?''))))
   = [[System, User], [User, Assistant, Tool]]"
proof -
  let ?r1 = "\<lparr>response_content = ''Checking'', usage = None,
               response_toolCalls = Some [llm_call ''{}'']\<rparr>"
  let ?conv = "[\<lparr>name = ''get_weather'', arguments = JObj [], callId = ''call_1''\<rparr>]"
  let ?results = "[\<lparr>result_callId = ''call_1'', result = Some (JStr ''Sunny''), error = None,
                    executionTime = 20\<rparr>]"
  have first: "asks_tool ''{}'' (llm sample_agent) (fst (first_request sample_agent ''Weather?''))
                 (snd (first_request sample_agent ''Weather?'')) = (Inr ?r1, 1)"
    by (simp add: asks_tool_def sample_agent_fields)
  have calls: "response_toolCalls ?r1 = Some [llm_call ''{}'']"
    by simp
  have some: "[llm_call ''{}''] \<noteq> []"
    by simp
  have results: "tool_results (toolRegistry sample_agent) ?conv = Inr ?results"
    by (simp only: sample_agent_fields sample_tool_results)
  note shape = Agent_chat_with_calls_trace
                 [where chat = "asks_tool ''{}''" and parse = sample_parse
                    and stringify = sample_stringify,
                  OF first calls some sample_converted results sample_tool_messages]
  show ?thesis
    unfolding shape
    by (simp add: sample_agent_fields sample_first_request sample_followup_history
          system_message_def user_message_def assistant_message_def split: sum.split)
qed

section \<open>Properties of the streaming variant\<close>

text \<open>A caller that comes back for more after every chunk up to and with the first one that
  has \<open>finished\<close> set receives exactly these chunks, and the loop ends by itself.\<close>

lemma stream_loop_eq:
  assumes "\<forall>n. 0 < n \<and> n \<le> length (upto_finished chunks) \<longrightarrow>
               \<not> leaves (received @ take n (upto_finished chunks))"
  shows "stream_loop leaves chunks received fullContent
           = (received @ upto_finished chunks,
              fullContent @ concat (map delta_text (upto_finished chunks)),
              if list_ex (\<lambda>c. finished c = Some True) chunks then Broke else Exhausted)"
  using assms
proof (induction chunks arbitrary: received fullContent)
  case Nil
  show ?case by simp
next
  case (Cons c chunks)
  let ?appended = "case chunk_content c of None \<Rightarrow> fullContent
               | Some s \<Rightarrow> if s = [] then fullContent else fullContent @ s"
  have appended: "?appended = fullContent @ delta_text c"
    by (simp add: delta_text_def split: option.split)
  from Cons.prems [rule_format, of 1] have stays: "\<not> leaves (received @ [c])"
    by (cases "finished c = Some True") simp_all
  show ?case
  proof (cases "finished c = Some True")
    case True
    with stays appended show ?thesis by (simp add: Let_def)
  next
    case False
    have "\<forall>n. 0 < n \<and> n \<le> length (upto_finished chunks) \<longrightarrow>
               \<not> leaves ((received @ [c]) @ take n (upto_finished chunks))"
    proof (intro allI impI)
      fix n
      assume "0 < n \<and> n \<le> length (upto_finished chunks)"
      with Cons.prems [rule_format, of "Suc n"] False
      show "\<not> leaves ((received @ [c]) @ take n (upto_finished chunks))"
        by simp
    qed
    from Cons.IH [OF this, of "fullContent @ delta_text c"] False stays appended
    show ?thesis by (simp add: Let_def)
  qed
qed

lemma upto_finished_all:
  "\<not> list_ex (\<lambda>c. finished c = Some True) chunks \<Longrightarrow> upto_finished chunks = chunks"
  by (induction chunks) simp_all

lemma Agent_stream_read:
  assumes "stream (llm ag) (fst (first_request ag userMessage)) (snd (first_request ag userMessage))
             = ((chunks, failure), l)"
    and "\<forall>n \<le> length (upto_finished chunks). \<not> leaves (take n (upto_finished chunks))"
  shows "Agent_stream leaves stream ag userMessage
           = (let ag2 = (Agent_addMessage ag (user_message userMessage))
                          \<lparr>llm := l,
                           trace := trace ag @ [AddMessage (user_message userMessage),
                                                LlmStream (fst (first_request ag userMessage))
                                                          (snd (first_request ag userMessage))]\<rparr>;
                  fullContent = concat (map delta_text (upto_finished chunks))
              in if failure \<noteq> None \<and> \<not> list_ex (\<lambda>c. finished c = Some True) chunks
                 then (upto_finished chunks, Failed (the failure), ag2)
                 else (upto_finished chunks, Completed,
                       if fullContent = [] then ag2
                       else Agent_addMessage ag2 (assistant_message fullContent None)))"
proof -
  from assms(2) have start: "\<not> leaves []"
    by (auto dest: spec [of _ 0])
  from assms(2) have "\<forall>n. 0 < n \<and> n \<le> length (upto_finished chunks) \<longrightarrow>
                          \<not> leaves ([] @ take n (upto_finished chunks))"
    by simp
  note loop = stream_loop_eq [OF this, of "[]"]
  from assms(1) start show ?thesis
    by (cases failure) (simp_all add: Agent_stream_def Let_def loop)
qed

text \<open>A stream that fails before any chunk says it is finished: the chunks read so far have
  been forwarded, the error is thrown on, and no assistant message is added.\<close>

lemma Agent_stream_fails:
  assumes "stream (llm ag) (fst (first_request ag userMessage)) (snd (first_request ag userMessage))
             = ((chunks, Some e), l)"
    and "\<not> list_ex (\<lambda>c. finished c = Some True) chunks"
    and "\<forall>n \<le> length chunks. \<not> leaves (take n chunks)"
  shows "fst (Agent_stream leaves stream ag userMessage) = chunks"
    and "fst (snd (Agent_stream leaves stream ag userMessage)) = Failed e"
    and "added_messages (trace (snd (snd (Agent_stream leaves stream ag userMessage))))
           = added_messages (trace ag) @ [user_message userMessage]"
proof -
  from assms(2,3)
  have "\<forall>n \<le> length (upto_finished chunks). \<not> leaves (take n (upto_finished chunks))"
    by (simp add: upto_finished_all)
  note run = Agent_stream_read [where stream = stream, OF assms(1) this]
  from assms(2) show "fst (Agent_stream leaves stream ag userMessage) = chunks"
    by (simp add: run Let_def upto_finished_all)
  from assms(2) show "fst (snd (Agent_stream leaves stream ag userMessage)) = Failed e"
    by (simp add: run Let_def)
  from assms(2)
  show "added_messages (trace (snd (snd (Agent_stream leaves stream ag userMessage))))
           = added_messages (trace ag) @ [user_message userMessage]"
    by (simp add: run Let_def)
qed

text \<open>A generator that its caller closes adds no assistant message.\<close>

lemma Agent_stream_closed:
  assumes "fst (snd (Agent_stream leaves stream ag userMessage)) = Closed"
  shows "added_messages (trace (snd (snd (Agent_stream leaves stream ag userMessage))))
           = added_messages (trace ag) @ (if leaves [] then [] else [user_message userMessage])"
proof (cases "leaves []")
  case True
  then show ?thesis by (simp add: Agent_stream_def)
next
  case False
  obtain chunks failure l
    where s: "stream (llm ag) (fst (first_request ag userMessage)) (snd (first_request ag userMessage))
                = ((chunks, failure), l)"
    by (cases "stream (llm ag) (fst (first_request ag userMessage)) (snd (first_request ag userMessage))")
       auto
  obtain received fullContent how
    where loop: "stream_loop leaves chunks [] [] = (received, fullContent, how)"
    by (cases "stream_loop leaves chunks [] []") auto
  from assms False s loop show ?thesis
    by (cases how; cases failure) (simp_all add: Agent_stream_def Let_def)
qed




end
